theory Spec2Isabelle
  imports Main "HOL-Library.Sublist"
begin

section \<open>Strings as the TypeScript code uses them\<close>

text \<open>
  Device names are modelled as \<open>string\<close> (a list of byte characters) and are taken to be
  ASCII. \<open>toLowerCase\<close> maps the letters A to Z to a to z and leaves every other character
  alone; \<open>str_includes\<close> is the substring test of \<^verbatim>\<open>String.prototype.str_includes\<close>.
\<close>

definition toLowerChar :: "char \<Rightarrow> char" where
  "toLowerChar c =
     (let n = (of_char c :: nat) in if 65 \<le> n \<and> n \<le> 90 then char_of (n + 32) else c)"

definition toLowerCase :: "string \<Rightarrow> string" where
  "toLowerCase s = map toLowerChar s"

fun str_includes :: "string \<Rightarrow> string \<Rightarrow> bool" where
  "str_includes [] sub = (sub = [])"
| "str_includes (c # cs) sub = (prefix sub (c # cs) \<or> str_includes cs sub)"

section \<open>Device classification (src/audio/devices.ts)\<close>

datatype Platform = Darwin | Win32 | Linux

datatype DeviceType = Audio | Video

record AudioDevice =
  index :: int
  name :: string
  type :: DeviceType

text \<open>The optional flags of \<^verbatim>\<open>SystemAudioDevice\<close> are \<open>None\<close> while the property is absent.\<close>

record SystemAudioDevice = AudioDevice +
  isSystemAudio :: bool
  isBlackHole :: "bool option"
  isStereoMix :: "bool option"
  isMonitor :: "bool option"

definition identifySystemAudioDevice :: "Platform \<Rightarrow> AudioDevice \<Rightarrow> SystemAudioDevice" where
  "identifySystemAudioDevice platform device =
     (let systemDevice = \<lparr> index = index device, name = name device, type = type device,
                            isSystemAudio = False, isBlackHole = None, isStereoMix = None,
                            isMonitor = None \<rparr>;
          nameLower = toLowerCase (name device)
      in if platform = Darwin then
           (if str_includes nameLower ''blackhole'' \<or> str_includes nameLower ''loopback''
               \<or> str_includes nameLower ''soundflower''
            then systemDevice\<lparr> isSystemAudio := True,
                                isBlackHole := Some (str_includes nameLower ''blackhole'') \<rparr>
            else systemDevice)
         else if platform = Win32 then
           (if str_includes nameLower ''stereo mix'' \<or> str_includes nameLower ''what u hear''
               \<or> str_includes nameLower ''loopback''
            then systemDevice\<lparr> isSystemAudio := True, isStereoMix := Some True \<rparr>
            else systemDevice)
         else
           (if str_includes nameLower ''.monitor''
            then systemDevice\<lparr> isSystemAudio := True, isMonitor := Some True \<rparr>
            else systemDevice))"

definition identifySystemAudioDevices :: "Platform \<Rightarrow> AudioDevice list \<Rightarrow> SystemAudioDevice list" where
  "identifySystemAudioDevices platform devices = map (identifySystemAudioDevice platform) devices"


section \<open>JavaScript values, objects and the store\<close>

text \<open>
  A configuration is a JavaScript object: a finite map from property names to values. Objects
  live in a store and are referred to by address, so that a copy made with the spread
  operator is a new object while the values it holds (among them references to device
  objects) are shared. The store is a list of objects; an address is an index into it and a
  newly created object takes the next index.
\<close>

type_synonym addr = nat

datatype val = VUndefined | VNull | VBool bool | VNum int | VStr string | VRef addr

type_synonym obj = "string \<rightharpoonup> val"

fun truthy :: "val \<Rightarrow> bool" where
  "truthy VUndefined = False"
| "truthy VNull = False"
| "truthy (VBool b) = b"
| "truthy (VNum n) = (n \<noteq> 0)"
| "truthy (VStr s) = (s \<noteq> [])"
| "truthy (VRef a) = True"

definition lookupObj :: "obj list \<Rightarrow> addr \<Rightarrow> obj" where
  "lookupObj h a = (if a < length h then h ! a else Map.empty)"

definition getField :: "obj list \<Rightarrow> addr \<Rightarrow> string \<Rightarrow> val" where
  "getField h a k = (case lookupObj h a k of None \<Rightarrow> VUndefined | Some v \<Rightarrow> v)"

text \<open>\<^verbatim>\<open>{ ...a, ...b }\<close>: the properties of \<open>a\<close>, overridden by every property present in \<open>b\<close>.\<close>

definition spread :: "obj \<Rightarrow> obj \<Rightarrow> obj" where
  "spread a b = a ++ b"

text \<open>An assignment \<^verbatim>\<open>o.k = v\<close> by a holder of the reference \<open>a\<close>.\<close>

definition writeField :: "obj list \<Rightarrow> addr \<Rightarrow> string \<Rightarrow> val \<Rightarrow> obj list" where
  "writeField h a k v = (if a < length h then h[a := (h ! a)(k \<mapsto> v)] else h)"

text \<open>
  \<^verbatim>\<open>o.k1.k2\<close> and \<^verbatim>\<open>o.k1.k2 = v\<close> by a holder of the reference \<open>a\<close> to \<^verbatim>\<open>o\<close>. \<open>None\<close> is the
  TypeError thrown when \<^verbatim>\<open>o.k1\<close> is \<^verbatim>\<open>undefined\<close> or \<^verbatim>\<open>null\<close>; on a primitive the read gives
  \<^verbatim>\<open>undefined\<close> and the assignment changes nothing.
\<close>

definition readNested :: "obj list \<Rightarrow> addr \<Rightarrow> string \<Rightarrow> string \<Rightarrow> val option" where
  "readNested h a k1 k2 =
     (case getField h a k1 of
        VRef d \<Rightarrow> Some (getField h d k2)
      | VUndefined \<Rightarrow> None
      | VNull \<Rightarrow> None
      | VBool b \<Rightarrow> Some VUndefined
      | VNum n \<Rightarrow> Some VUndefined
      | VStr s \<Rightarrow> Some VUndefined)"

definition writeNested :: "obj list \<Rightarrow> addr \<Rightarrow> string \<Rightarrow> string \<Rightarrow> val \<Rightarrow> obj list option" where
  "writeNested h a k1 k2 v =
     (case getField h a k1 of
        VRef d \<Rightarrow> Some (writeField h d k2 v)
      | VUndefined \<Rightarrow> None
      | VNull \<Rightarrow> None
      | VBool b \<Rightarrow> Some h
      | VNum n \<Rightarrow> Some h
      | VStr s \<Rightarrow> Some h)"

section \<open>Errors, signals, events and effects\<close>

datatype error = Error string

datatype signal = SIGINT | SIGKILL | SIGSTOP | SIGCONT | SIGTERM

type_synonym pid = nat

text \<open>What \<^verbatim>\<open>Bun.spawn\<close> does is decided by the host: it throws, or returns a process handle.\<close>

datatype spawn_result = SpawnThrows error | Spawned pid

text \<open>
  Events emitted to listeners, over the state type of the emitting recorder, and the
  effects a recorder has on the outside: an emitted event, a signal sent with
  \<^verbatim>\<open>process.kill\<close>, a spawned subprocess, a timer armed with \<^verbatim>\<open>setTimeout\<close> (delay in
  milliseconds). Every operation appends its effects to the recorder's trace, in program
  order. The argument vector of a spawned process is not recorded. The progress events
  scraped from the standard error of FFmpeg and the started and stopped events read from the
  standard output of the native helper come from separate stream readers; the latter are
  modelled with \<^verbatim>\<open>handleOutput\<close> below.
\<close>

datatype 's event =
    StateChange 's
  | ErrorEvent error
  | Finished val int

datatype 's effect =
    Emit "'s event"
  | Kill pid signal
  | Spawn pid
  | SetTimeout nat

section \<open>The FFmpeg recorder (class AudioRecorder)\<close>

datatype RecordingState = Idle | Recording | Paused | Stopping

fun stateName :: "RecordingState \<Rightarrow> string" where
  "stateName Idle = ''idle''"
| "stateName Recording = ''recording''"
| "stateName Paused = ''paused''"
| "stateName Stopping = ''stopping''"

text \<open>
  The fields of the class, followed by the store and the trace of effects. \<open>config\<close> is the
  reference held in \<^verbatim>\<open>this.config\<close>.
\<close>

record AudioRecorder =
  state :: RecordingState
  process :: "pid option"
  config :: addr
  platform :: Platform
  startTime :: int
  pausedDuration :: int
  pauseStartTime :: int
  heap :: "obj list"
  trace :: "RecordingState effect list"

definition defaultRecorderConfig :: obj where
  "defaultRecorderConfig =
     [''outputFormat'' \<mapsto> VStr ''m4a'', ''mixAudio'' \<mapsto> VBool True, ''bitrate'' \<mapsto> VStr ''192k'']"

text \<open>The constructor; \<open>h\<close> is the store at the time of the call, \<open>pf\<close> the host platform.\<close>

definition newAudioRecorder :: "Platform \<Rightarrow> obj list \<Rightarrow> obj \<Rightarrow> AudioRecorder" where
  "newAudioRecorder pf h cfg =
     \<lparr> state = Idle, process = None, config = length h, platform = pf, startTime = 0,
       pausedDuration = 0, pauseStartTime = 0,
       heap = h @ [spread defaultRecorderConfig cfg], trace = [] \<rparr>"

definition getState :: "AudioRecorder \<Rightarrow> RecordingState" where
  "getState r = state r"

text \<open>\<open>now\<close> is the value of \<^verbatim>\<open>Date.now()\<close> at the call.\<close>

definition getElapsedTime :: "int \<Rightarrow> AudioRecorder \<Rightarrow> int" where
  "getElapsedTime now r =
     (if state r = Idle then 0
      else if state r = Paused then pauseStartTime r - startTime r - pausedDuration r
      else now - startTime r - pausedDuration r)"

definition emit :: "RecordingState event \<Rightarrow> AudioRecorder \<Rightarrow> AudioRecorder" where
  "emit e r = r\<lparr> trace := trace r @ [Emit e] \<rparr>"

definition sendSignal :: "pid \<Rightarrow> signal \<Rightarrow> AudioRecorder \<Rightarrow> AudioRecorder" where
  "sendSignal p sg r = r\<lparr> trace := trace r @ [Kill p sg] \<rparr>"

text \<open>
  \<^verbatim>\<open>start()\<close>. The method has no suspension point: it runs to its end in one turn of the
  event loop. A thrown error is returned next to the recorder, whose changes up to the
  throw persist.
\<close>

definition start :: "int \<Rightarrow> spawn_result \<Rightarrow> AudioRecorder \<Rightarrow> AudioRecorder \<times> error option" where
  "start now sp r =
     (if state r \<noteq> Idle then
        (r, Some (Error (''Cannot start recording in state: '' @ stateName (state r))))
      else if \<not> truthy (getField (heap r) (config r) ''micDevice'')
              \<and> \<not> truthy (getField (heap r) (config r) ''systemDevice'') then
        (r, Some (Error ''At least one audio device must be configured''))
      else
        (case sp of
           Spawned p \<Rightarrow>
             (emit (StateChange Recording)
                (r\<lparr> process := Some p, state := Recording, startTime := now,
                    pausedDuration := 0, trace := trace r @ [Spawn p] \<rparr>), None)
         | SpawnThrows err \<Rightarrow>
             (emit (ErrorEvent err) (r\<lparr> state := Idle \<rparr>), Some err)))"

text \<open>The handler registered on \<^verbatim>\<open>this.process.exited\<close>; \<open>code\<close> is the exit code.\<close>

definition exited :: "int \<Rightarrow> int \<Rightarrow> AudioRecorder \<Rightarrow> AudioRecorder" where
  "exited now code r =
     (let r1 = (if code = 0
                then emit (Finished (getField (heap r) (config r) ''outputPath'')
                                    (getElapsedTime now r)) r
                else r)
      in emit (StateChange Idle) (r1\<lparr> state := Idle \<rparr>))"

text \<open>
  \<^verbatim>\<open>stop()\<close> suspends once, at the race between the exit of the subprocess and the timer.
  \<open>stop_begin\<close> is the part before the suspension, \<open>stop_timeout\<close> the timer's callback and
  \<open>stop_finish\<close> the part after the race has been decided.
\<close>

definition stop_begin :: "AudioRecorder \<Rightarrow> AudioRecorder \<times> error option" where
  "stop_begin r =
     (if state r \<noteq> Recording \<and> state r \<noteq> Paused then
        (r, Some (Error (''Cannot stop recording in state: '' @ stateName (state r))))
      else
        (let r1 = (case process r of
                     Some p \<Rightarrow> if state r = Paused \<and> platform r \<noteq> Win32
                               then sendSignal p SIGCONT r else r
                   | None \<Rightarrow> r);
             r2 = emit (StateChange Stopping) (r1\<lparr> state := Stopping \<rparr>)
         in (case process r2 of
               Some p \<Rightarrow>
                 (let r3 = sendSignal p SIGINT r2
                  in (r3\<lparr> trace := trace r3 @ [SetTimeout 5000] \<rparr>, None))
             | None \<Rightarrow> (r2, None))))"

definition stop_timeout :: "AudioRecorder \<Rightarrow> AudioRecorder" where
  "stop_timeout r = (case process r of Some p \<Rightarrow> sendSignal p SIGKILL r | None \<Rightarrow> r)"

definition stop_finish :: "AudioRecorder \<Rightarrow> AudioRecorder" where
  "stop_finish r = r\<lparr> process := None \<rparr>"

text \<open>\<^verbatim>\<open>kill()\<close>: \<^verbatim>\<open>process.kill()\<close> without an argument sends the default signal, SIGTERM.\<close>

definition kill :: "AudioRecorder \<Rightarrow> AudioRecorder" where
  "kill r =
     (let r1 = (case process r of
                  Some p \<Rightarrow> (sendSignal p SIGTERM r)\<lparr> process := None \<rparr>
                | None \<Rightarrow> r)
      in emit (StateChange Idle) (r1\<lparr> state := Idle \<rparr>))"

definition pause :: "int \<Rightarrow> AudioRecorder \<Rightarrow> AudioRecorder \<times> error option" where
  "pause now r =
     (if state r \<noteq> Recording then
        (r, Some (Error (''Cannot pause in state: '' @ stateName (state r))))
      else
        (case process r of
           Some p \<Rightarrow>
             if platform r \<noteq> Win32
             then (emit (StateChange Paused)
                     ((sendSignal p SIGSTOP r)\<lparr> state := Paused, pauseStartTime := now \<rparr>), None)
             else (r, None)
         | None \<Rightarrow> (r, None)))"

definition resume :: "int \<Rightarrow> AudioRecorder \<Rightarrow> AudioRecorder \<times> error option" where
  "resume now r =
     (if state r \<noteq> Paused then
        (r, Some (Error (''Cannot resume in state: '' @ stateName (state r))))
      else
        (case process r of
           Some p \<Rightarrow>
             if platform r \<noteq> Win32
             then (emit (StateChange Recording)
                     ((sendSignal p SIGCONT r)
                        \<lparr> pausedDuration := pausedDuration r + (now - pauseStartTime r),
                          state := Recording \<rparr>), None)
             else (r, None)
         | None \<Rightarrow> (r, None)))"

definition setConfig :: "obj \<Rightarrow> AudioRecorder \<Rightarrow> AudioRecorder \<times> error option" where
  "setConfig cfg r =
     (if state r \<noteq> Idle then (r, Some (Error ''Cannot update config while recording''))
      else (r\<lparr> config := length (heap r),
               heap := heap r @ [spread (lookupObj (heap r) (config r)) cfg] \<rparr>, None))"

text \<open>\<^verbatim>\<open>getConfig()\<close> returns the reference to a new object holding the properties of the stored one.\<close>

definition getConfig :: "AudioRecorder \<Rightarrow> addr \<times> AudioRecorder" where
  "getConfig r =
     (length (heap r), r\<lparr> heap := heap r @ [spread Map.empty (lookupObj (heap r) (config r))] \<rparr>)"

section \<open>The native recorder (class NativeAudioRecorder)\<close>

datatype NativeRecordingState = NIdle | NRecording | NStopping

fun nativeStateName :: "NativeRecordingState \<Rightarrow> string" where
  "nativeStateName NIdle = ''idle''"
| "nativeStateName NRecording = ''recording''"
| "nativeStateName NStopping = ''stopping''"

record NativeAudioRecorder =
  nstate :: NativeRecordingState
  nprocess :: "pid option"
  nconfig :: addr
  nstartTime :: int
  nheap :: "obj list"
  ntrace :: "NativeRecordingState effect list"

definition defaultNativeConfig :: obj where
  "defaultNativeConfig = [''recordMic'' \<mapsto> VBool True, ''recordSystem'' \<mapsto> VBool False]"

definition newNativeAudioRecorder :: "obj list \<Rightarrow> obj \<Rightarrow> NativeAudioRecorder" where
  "newNativeAudioRecorder h cfg =
     \<lparr> nstate = NIdle, nprocess = None, nconfig = length h, nstartTime = 0,
       nheap = h @ [spread defaultNativeConfig cfg], ntrace = [] \<rparr>"

definition native_getState :: "NativeAudioRecorder \<Rightarrow> NativeRecordingState" where
  "native_getState r = nstate r"

definition native_getElapsedTime :: "int \<Rightarrow> NativeAudioRecorder \<Rightarrow> int" where
  "native_getElapsedTime now r = (if nstate r = NIdle then 0 else now - nstartTime r)"

definition native_emit :: "NativeRecordingState event \<Rightarrow> NativeAudioRecorder \<Rightarrow> NativeAudioRecorder" where
  "native_emit e r = r\<lparr> ntrace := ntrace r @ [Emit e] \<rparr>"

definition native_sendSignal :: "pid \<Rightarrow> signal \<Rightarrow> NativeAudioRecorder \<Rightarrow> NativeAudioRecorder" where
  "native_sendSignal p sg r = r\<lparr> ntrace := ntrace r @ [Kill p sg] \<rparr>"

text \<open>\<^verbatim>\<open>start()\<close>, again without a suspension point.\<close>

definition native_start ::
  "int \<Rightarrow> spawn_result \<Rightarrow> NativeAudioRecorder \<Rightarrow> NativeAudioRecorder \<times> error option" where
  "native_start now sp r =
     (if nstate r \<noteq> NIdle then
        (r, Some (Error (''Cannot start recording in state: '' @ nativeStateName (nstate r))))
      else
        (case sp of
           Spawned p \<Rightarrow>
             (native_emit (StateChange NRecording)
                (r\<lparr> nprocess := Some p, nstate := NRecording, nstartTime := now,
                    ntrace := ntrace r @ [Spawn p] \<rparr>), None)
         | SpawnThrows err \<Rightarrow>
             (native_emit (ErrorEvent err) (r\<lparr> nstate := NIdle \<rparr>), Some err)))"

text \<open>The handler registered on \<^verbatim>\<open>this.process.exited\<close>.\<close>

definition native_exited :: "int \<Rightarrow> NativeAudioRecorder \<Rightarrow> NativeAudioRecorder" where
  "native_exited code r =
     (if nstate r = NRecording
      then native_emit (StateChange NIdle) (r\<lparr> nstate := NIdle \<rparr>)
      else r)"

definition native_stop_begin :: "NativeAudioRecorder \<Rightarrow> NativeAudioRecorder \<times> error option" where
  "native_stop_begin r =
     (if nstate r \<noteq> NRecording then
        (r, Some (Error (''Cannot stop recording in state: '' @ nativeStateName (nstate r))))
      else
        (let r2 = native_emit (StateChange NStopping) (r\<lparr> nstate := NStopping \<rparr>)
         in (case nprocess r2 of
               Some p \<Rightarrow>
                 (let r3 = native_sendSignal p SIGINT r2
                  in (r3\<lparr> ntrace := ntrace r3 @ [SetTimeout 5000] \<rparr>, None))
             | None \<Rightarrow> (r2, None))))"

definition native_stop_timeout :: "NativeAudioRecorder \<Rightarrow> NativeAudioRecorder" where
  "native_stop_timeout r =
     (case nprocess r of Some p \<Rightarrow> native_sendSignal p SIGKILL r | None \<Rightarrow> r)"

definition native_stop_finish :: "NativeAudioRecorder \<Rightarrow> NativeAudioRecorder" where
  "native_stop_finish r =
     (native_emit (StateChange NIdle) (r\<lparr> nstate := NIdle \<rparr>))\<lparr> nprocess := None \<rparr>"

definition native_kill :: "NativeAudioRecorder \<Rightarrow> NativeAudioRecorder" where
  "native_kill r =
     (let r1 = (case nprocess r of
                  Some p \<Rightarrow> (native_sendSignal p SIGKILL r)\<lparr> nprocess := None \<rparr>
                | None \<Rightarrow> r)
      in native_emit (StateChange NIdle) (r1\<lparr> nstate := NIdle \<rparr>))"

definition native_setConfig :: "obj \<Rightarrow> NativeAudioRecorder \<Rightarrow> NativeAudioRecorder \<times> error option" where
  "native_setConfig cfg r =
     (if nstate r \<noteq> NIdle then (r, Some (Error ''Cannot update config while recording''))
      else (r\<lparr> nconfig := length (nheap r),
               nheap := nheap r @ [spread (lookupObj (nheap r) (nconfig r)) cfg] \<rparr>, None))"

definition native_getConfig :: "NativeAudioRecorder \<Rightarrow> addr \<times> NativeAudioRecorder" where
  "native_getConfig r =
     (length (nheap r),
      r\<lparr> nheap := nheap r @ [spread Map.empty (lookupObj (nheap r) (nconfig r))] \<rparr>)"

section \<open>The two-phase stop on the event loop\<close>

text \<open>
  After the first part of \<^verbatim>\<open>stop()\<close> three things are pending: the exit of the subprocess
  (handled by the handler registered in \<^verbatim>\<open>start()\<close>, which was registered before the race and
  so runs before the continuation of \<^verbatim>\<open>stop()\<close>), the continuation of \<^verbatim>\<open>stop()\<close>, and the
  timer, due 5000 ms after it was armed. \<open>exitAfter\<close> is the number of milliseconds after the
  interrupt at which the subprocess exits of its own accord; \<open>None\<close> means it does not. The
  subprocess exits within the timeout when that number is below 5000; otherwise the timer
  fires first and the subprocess exits after the force-kill. \<open>code\<close> is the exit code and
  \<open>now\<close> the clock when the exit handler runs. No other method of the recorder is called
  while these three are pending.
\<close>

datatype stop_event = ProcessExits | StopContinues | TimerFires

definition stop_schedule :: "nat option \<Rightarrow> stop_event list" where
  "stop_schedule exitAfter =
     (case exitAfter of
        Some d \<Rightarrow> if d < 5000 then [ProcessExits, StopContinues, TimerFires]
                  else [TimerFires, StopContinues, ProcessExits]
      | None \<Rightarrow> [TimerFires, StopContinues, ProcessExits])"

fun stop_step :: "int \<Rightarrow> int \<Rightarrow> stop_event \<Rightarrow> AudioRecorder \<Rightarrow> AudioRecorder" where
  "stop_step now code ProcessExits r = exited now code r"
| "stop_step now code StopContinues r = stop_finish r"
| "stop_step now code TimerFires r = stop_timeout r"

definition stop :: "int \<Rightarrow> nat option \<Rightarrow> int \<Rightarrow> AudioRecorder \<Rightarrow> AudioRecorder \<times> error option" where
  "stop now exitAfter code r =
     (case stop_begin r of
        (r1, Some err) \<Rightarrow> (r1, Some err)
      | (r1, None) \<Rightarrow>
          (case process r1 of
             None \<Rightarrow> (stop_finish r1, None)
           | Some p \<Rightarrow> (fold (stop_step now code) (stop_schedule exitAfter) r1, None)))"

fun native_stop_step :: "int \<Rightarrow> stop_event \<Rightarrow> NativeAudioRecorder \<Rightarrow> NativeAudioRecorder" where
  "native_stop_step code ProcessExits r = native_exited code r"
| "native_stop_step code StopContinues r = native_stop_finish r"
| "native_stop_step code TimerFires r = native_stop_timeout r"

definition native_stop ::
  "nat option \<Rightarrow> int \<Rightarrow> NativeAudioRecorder \<Rightarrow> NativeAudioRecorder \<times> error option" where
  "native_stop exitAfter code r =
     (case native_stop_begin r of
        (r1, Some err) \<Rightarrow> (r1, Some err)
      | (r1, None) \<Rightarrow>
          (case nprocess r1 of
             None \<Rightarrow> (native_stop_finish r1, None)
           | Some p \<Rightarrow> (fold (native_stop_step code) (stop_schedule exitAfter) r1, None)))"

section \<open>Sequences of calls on the FFmpeg recorder\<close>

text \<open>
  Everything that can happen to an \<open>AudioRecorder\<close>, each with the value of the clock when it
  happens: the public methods, the two later parts of \<^verbatim>\<open>stop()\<close> and the exit of the
  subprocess.
\<close>

datatype call =
    CallStart spawn_result
  | CallStop
  | StopContinuation
  | StopTimer
  | ProcessExited int
  | CallPause
  | CallResume
  | CallKill
  | CallSetConfig obj
  | CallGetConfig

fun perform :: "int \<times> call \<Rightarrow> AudioRecorder \<Rightarrow> AudioRecorder" where
  "perform (now, CallStart sp) r = fst (start now sp r)"
| "perform (now, CallStop) r = fst (stop_begin r)"
| "perform (now, StopContinuation) r = stop_finish r"
| "perform (now, StopTimer) r = stop_timeout r"
| "perform (now, ProcessExited code) r = exited now code r"
| "perform (now, CallPause) r = fst (pause now r)"
| "perform (now, CallResume) r = fst (resume now r)"
| "perform (now, CallKill) r = kill r"
| "perform (now, CallSetConfig cfg) r = fst (setConfig cfg r)"
| "perform (now, CallGetConfig) r = snd (getConfig r)"

text \<open>The error events in a trace, in order.\<close>

fun emittedErrors :: "'s effect list \<Rightarrow> error list" where
  "emittedErrors [] = []"
| "emittedErrors (Emit (ErrorEvent e) # tr) = e # emittedErrors tr"
| "emittedErrors (x # tr) = emittedErrors tr"

section \<open>The standard output of the native helper (NativeAudioRecorder.handleOutput)\<close>

text \<open>
  What \<^verbatim>\<open>JSON.parse\<close> returns. Numbers are kept as integers: only whether a number is zero
  matters here. \<^verbatim>\<open>JSON.parse\<close> itself belongs to the runtime and is a parameter
  \<open>parse\<close> of the functions below; \<open>None\<close> stands for the SyntaxError it throws.
\<close>

datatype json = JNull | JBool bool | JNum int | JStr string | JArr "json list"
  | JObj "(string \<times> json) list"

datatype exn = SyntaxError | TypeError

text \<open>
  Reading a property: of \<^verbatim>\<open>null\<close> it throws a TypeError, of an object it gives the member or
  \<^verbatim>\<open>undefined\<close> (\<open>None\<close>), of anything else \<^verbatim>\<open>undefined\<close> for the three names read here.
\<close>

fun jsonGet :: "json \<Rightarrow> string \<Rightarrow> exn + json option" where
  "jsonGet JNull k = Inl TypeError"
| "jsonGet (JObj kvs) k = Inr (map_of kvs k)"
| "jsonGet (JBool b) k = Inr None"
| "jsonGet (JNum n) k = Inr None"
| "jsonGet (JStr s) k = Inr None"
| "jsonGet (JArr xs) k = Inr None"

fun jsonTruthy :: "json option \<Rightarrow> bool" where
  "jsonTruthy None = False"
| "jsonTruthy (Some JNull) = False"
| "jsonTruthy (Some (JBool b)) = b"
| "jsonTruthy (Some (JNum n)) = (n \<noteq> 0)"
| "jsonTruthy (Some (JStr s)) = (s \<noteq> [])"
| "jsonTruthy (Some (JArr xs)) = True"
| "jsonTruthy (Some (JObj kvs)) = True"

text \<open>
  The lines passed to the debug logger and the events emitted, in order. \<open>LogRecordingError v\<close>
  and \<open>MessageError v\<close> carry the value of the \<^verbatim>\<open>error\<close> member, from which the source builds
  the text and \<^verbatim>\<open>new Error(msg.error)\<close>.
\<close>

datatype logline =
    LogStdout string
  | LogStartedReceived
  | LogStoppedReceived
  | LogRecordingError json
  | LogParseFailed exn

datatype output_event = StartedEvent val | StoppedEvent val | MessageError json

datatype action = DebugLog logline | EmitEvent output_event

definition isWhitespace :: "char \<Rightarrow> bool" where
  "isWhitespace c = (let n = (of_char c :: nat) in (9 \<le> n \<and> n \<le> 13) \<or> n = 32)"

text \<open>\<^verbatim>\<open>line.trim()\<close> is a non-empty string exactly when the line has a character that is not white space.\<close>

definition trimIsNonEmpty :: "string \<Rightarrow> bool" where
  "trimIsNonEmpty line = (\<exists>c \<in> set line. \<not> isWhitespace c)"

text \<open>The body of the inner \<^verbatim>\<open>try\<close> after the parse; \<open>outputPath\<close> is \<^verbatim>\<open>this.config.outputPath\<close>.\<close>

definition processMessage :: "val \<Rightarrow> json \<Rightarrow> exn + action list" where
  "processMessage outputPath msg =
     (case jsonGet msg ''success'' of
        Inl e \<Rightarrow> Inl e
      | Inr success \<Rightarrow>
          (case jsonGet msg ''message'' of
             Inl e \<Rightarrow> Inl e
           | Inr message \<Rightarrow>
               (case jsonGet msg ''error'' of
                  Inl e \<Rightarrow> Inl e
                | Inr err \<Rightarrow>
                    Inr (if jsonTruthy success \<and> message = Some (JStr ''Recording started'')
                         then [DebugLog LogStartedReceived, EmitEvent (StartedEvent outputPath)]
                         else if jsonTruthy success \<and> message = Some (JStr ''Recording stopped'')
                         then [DebugLog LogStoppedReceived, EmitEvent (StoppedEvent outputPath)]
                         else if \<not> jsonTruthy success \<and> jsonTruthy err
                         then (case err of
                                 Some v \<Rightarrow> [DebugLog (LogRecordingError v), EmitEvent (MessageError v)]
                               | None \<Rightarrow> [])
                         else []))))"

text \<open>One turn of the \<^verbatim>\<open>for\<close> loop: the \<^verbatim>\<open>try\<close> with its \<^verbatim>\<open>catch\<close>, which only logs.\<close>

definition processLine :: "(string \<Rightarrow> json option) \<Rightarrow> val \<Rightarrow> string \<Rightarrow> action list" where
  "processLine parse outputPath line =
     (if trimIsNonEmpty line then
        DebugLog (LogStdout line) #
          (case parse line of
             None \<Rightarrow> [DebugLog (LogParseFailed SyntaxError)]
           | Some msg \<Rightarrow>
               (case processMessage outputPath msg of
                  Inl e \<Rightarrow> [DebugLog (LogParseFailed e)]
                | Inr acts \<Rightarrow> acts))
      else [])"

fun processLines :: "(string \<Rightarrow> json option) \<Rightarrow> val \<Rightarrow> string list \<Rightarrow> action list" where
  "processLines parse outputPath [] = []"
| "processLines parse outputPath (line # rest) =
     processLine parse outputPath line @ processLines parse outputPath rest"

text \<open>\<^verbatim>\<open>buffer.split("\n")\<close>: always at least one piece.\<close>

fun split_newline :: "string \<Rightarrow> string list" where
  "split_newline [] = [[]]"
| "split_newline (c # cs) =
     (if c = CHR 0x0A then [] # split_newline cs
      else (case split_newline cs of
              l # ls \<Rightarrow> (c # l) # ls
            | [] \<Rightarrow> [[c]]))"

text \<open>
  The \<^verbatim>\<open>while\<close> loop over the chunks read from the stream. The stream is the list of its
  chunks; the loop ends when the stream is done or a read fails, either way silently.
\<close>

fun handleOutput_loop ::
  "(string \<Rightarrow> json option) \<Rightarrow> val \<Rightarrow> string \<Rightarrow> string list \<Rightarrow> action list" where
  "handleOutput_loop parse outputPath buffer [] = []"
| "handleOutput_loop parse outputPath buffer (chunk # chunks) =
     (let lines = split_newline (buffer @ chunk)
      in processLines parse outputPath (butlast lines)
         @ handleOutput_loop parse outputPath (last lines) chunks)"

definition handleOutput :: "(string \<Rightarrow> json option) \<Rightarrow> val \<Rightarrow> string list \<Rightarrow> action list" where
  "handleOutput parse outputPath chunks = handleOutput_loop parse outputPath [] chunks"

fun emittedEvents :: "action list \<Rightarrow> output_event list" where
  "emittedEvents [] = []"
| "emittedEvents (EmitEvent e # as) = e # emittedEvents as"
| "emittedEvents (DebugLog l # as) = emittedEvents as"

section \<open>Starting a recording from the application (class MeetingTranscriberApp)\<close>

record NativeDevice =
  deviceIndex :: string
  deviceName :: string
  deviceId :: string
  deviceIsSystem :: bool

text \<open>
  The fields of the application that \<^verbatim>\<open>startRecording\<close> reads or writes. \<open>effects\<close> collects
  the effects of every recorder the application has created.
\<close>

record App =
  isStartingRecording :: bool
  recorder :: "NativeAudioRecorder option"
  recordingState :: NativeRecordingState
  selectedMic :: "NativeDevice option"
  selectedSystemAudio :: "NativeDevice option"
  recordBoth :: bool
  outputPath :: string
  errorMessage :: string
  updateInterval :: bool
  effects :: "NativeRecordingState effect list"

text \<open>The listeners the application registers on its recorder.\<close>

fun onRecorderEffect :: "NativeRecordingState effect \<Rightarrow> App \<Rightarrow> App" where
  "onRecorderEffect (Emit (StateChange s)) a = a\<lparr> recordingState := s \<rparr>"
| "onRecorderEffect (Emit (ErrorEvent (Error m))) a = a\<lparr> errorMessage := m \<rparr>"
| "onRecorderEffect x a = a"

text \<open>
  What the host decides during one call of \<^verbatim>\<open>startRecording\<close>: whether creating the
  recordings directory succeeds, the generated output path, the clock and the result of the
  spawn.
\<close>

record call_env =
  dirOk :: bool
  generatedPath :: string
  clock :: int
  spawnResult :: spawn_result

text \<open>
  \<^verbatim>\<open>startRecording\<close> suspends twice: at \<^verbatim>\<open>await this.ensureRecordingsDir()\<close> and at
  \<^verbatim>\<open>await this.recorder.start()\<close>. A call is at one of these points, has not begun, has
  returned, or has been rejected (the directory could not be created; that \<^verbatim>\<open>await\<close> is
  outside the \<^verbatim>\<open>try\<close>). \<open>AwaitingDir\<close> keeps the locals \<^verbatim>\<open>recordMic\<close> and
  \<^verbatim>\<open>recordSystem\<close>, \<open>AwaitingStart\<close> the error thrown by \<^verbatim>\<open>start()\<close>, if any.
\<close>

datatype task = NotCalled | AwaitingDir bool bool | AwaitingStart "error option"
  | Returned | Rejected

fun startRecording_step :: "call_env \<Rightarrow> task \<times> App \<Rightarrow> task \<times> App" where
  "startRecording_step env (NotCalled, a) =
     (if isStartingRecording a \<or> recorder a \<noteq> None \<or> recordingState a \<noteq> NIdle
      then (Returned, a)
      else
        (let a1 = a\<lparr> isStartingRecording := True \<rparr>;
             recordMic = (selectedMic a1 \<noteq> None);
             recordSystem = (selectedSystemAudio a1 \<noteq> None \<and> (recordBoth a1 \<or> \<not> recordMic))
         in if \<not> recordMic \<and> \<not> recordSystem
            then (Returned, a1\<lparr> errorMessage := ''Please select at least one audio source'' \<rparr>)
            else (AwaitingDir recordMic recordSystem, a1)))"
| "startRecording_step env (AwaitingDir recordMic recordSystem, a) =
     (if \<not> dirOk env then (Rejected, a)
      else
        (let a1 = a\<lparr> outputPath := generatedPath env, errorMessage := [] \<rparr>;
             r0 = newNativeAudioRecorder []
                    [''outputPath'' \<mapsto> VStr (outputPath a1), ''recordMic'' \<mapsto> VBool recordMic,
                     ''recordSystem'' \<mapsto> VBool recordSystem];
             (r1, err) = native_start (clock env) (spawnResult env) r0;
             a2 = fold onRecorderEffect (ntrace r1) (a1\<lparr> recorder := Some r1 \<rparr>)
         in (AwaitingStart err, a2\<lparr> effects := effects a2 @ ntrace r1 \<rparr>)))"
| "startRecording_step env (AwaitingStart err, a) =
     (let a1 = (case err of
                  None \<Rightarrow> a\<lparr> updateInterval := True \<rparr>
                | Some (Error m) \<Rightarrow> a\<lparr> errorMessage := m \<rparr>)
      in (Returned, a1\<lparr> isStartingRecording := False \<rparr>))"
| "startRecording_step env (Returned, a) = (Returned, a)"
| "startRecording_step env (Rejected, a) = (Rejected, a)"

text \<open>One call run to its end with nothing in between.\<close>

definition startRecording :: "call_env \<Rightarrow> App \<Rightarrow> task \<times> App" where
  "startRecording env a =
     startRecording_step env (startRecording_step env (startRecording_step env (NotCalled, a)))"

text \<open>
  Two calls on the same application. The schedule says, turn by turn, which of the two
  calls runs up to its next suspension point: \<open>False\<close> the first, \<open>True\<close> the second.
\<close>

fun run_two ::
  "call_env \<Rightarrow> call_env \<Rightarrow> bool list \<Rightarrow> task \<times> task \<times> App \<Rightarrow> task \<times> task \<times> App" where
  "run_two e1 e2 [] s = s"
| "run_two e1 e2 (False # sched) (t1, t2, a) =
     (case startRecording_step e1 (t1, a) of (t1', a') \<Rightarrow> run_two e1 e2 sched (t1', t2, a'))"
| "run_two e1 e2 (True # sched) (t1, t2, a) =
     (case startRecording_step e2 (t2, a) of (t2', a') \<Rightarrow> run_two e1 e2 sched (t1, t2', a'))"

fun isSpawn :: "'s effect \<Rightarrow> bool" where
  "isSpawn (Spawn p) = True"
| "isSpawn x = False"

definition spawnCount :: "App \<Rightarrow> nat" where
  "spawnCount a = length (filter isSpawn (effects a))"

text \<open>
  The situations two calls of \<^verbatim>\<open>startRecording\<close> can be in, seen from the call \<open>t\<close> that got
  past the guard (or from either call while neither has begun); \<open>u\<close> is the other call
  and \<open>k\<close> the number of subprocesses spawned before.
\<close>

fun inactive :: "task \<Rightarrow> bool" where
  "inactive NotCalled = True"
| "inactive Returned = True"
| "inactive t = False"

definition start_inv :: "nat \<Rightarrow> task \<Rightarrow> task \<Rightarrow> App \<Rightarrow> bool" where
  "start_inv k t u a \<longleftrightarrow>
     (t = NotCalled \<and> u = NotCalled \<and> \<not> isStartingRecording a \<and> recorder a = None
        \<and> recordingState a = NIdle
        \<and> (selectedMic a \<noteq> None \<or> selectedSystemAudio a \<noteq> None) \<and> spawnCount a = k)
     \<or> ((\<exists>rm rs. t = AwaitingDir rm rs) \<and> inactive u \<and> isStartingRecording a
          \<and> spawnCount a = k)
     \<or> (t = AwaitingStart None \<and> inactive u \<and> recorder a \<noteq> None \<and> spawnCount a = k + 1)
     \<or> (t = Returned \<and> inactive u \<and> recorder a \<noteq> None \<and> spawnCount a = k + 1)"

text \<open>An application at rest with a microphone selected, and a host on which everything succeeds.\<close>

definition builtinMic :: NativeDevice where
  "builtinMic = \<lparr> deviceIndex = ''0'', deviceName = ''MacBook Pro Microphone'',
                  deviceId = ''BuiltInMicrophoneDevice'', deviceIsSystem = False \<rparr>"

definition idleApp :: App where
  "idleApp = \<lparr> isStartingRecording = False, recorder = None, recordingState = NIdle,
               selectedMic = Some builtinMic, selectedSystemAudio = None, recordBoth = False,
               outputPath = [], errorMessage = [], updateInterval = False, effects = [] \<rparr>"

definition goodHost :: "pid \<Rightarrow> call_env" where
  "goodHost p = \<lparr> dirOk = True, generatedPath = ''recordings/recording_2026-01-01T10-00-00.m4a'',
                  clock = 1000, spawnResult = Spawned p \<rparr>"

section \<open>The recording session of the native helper (native/recorder.swift)\<close>

text \<open>
  The file system is a map from paths to file contents. \<^verbatim>\<open>removeItem\<close> fails when the file
  is missing, \<^verbatim>\<open>moveItem\<close> when the source is missing or the destination exists; \<open>None\<close>
  is the thrown error. \<^verbatim>\<open>try?\<close> discards the error and leaves the file system as it was.
\<close>

type_synonym filesystem = "string \<rightharpoonup> string"

definition removeItem :: "filesystem \<Rightarrow> string \<Rightarrow> filesystem option" where
  "removeItem fs p = (if fs p \<noteq> None then Some (fs(p := None)) else None)"

definition moveItem :: "filesystem \<Rightarrow> string \<Rightarrow> string \<Rightarrow> filesystem option" where
  "moveItem fs src dst =
     (if fs src \<noteq> None \<and> fs dst = None then Some ((fs(src := None))(dst := fs src)) else None)"

definition try_discard :: "filesystem \<Rightarrow> filesystem option \<Rightarrow> filesystem" where
  "try_discard fs r = (case r of Some fs' \<Rightarrow> fs' | None \<Rightarrow> fs)"

text \<open>\<^verbatim>\<open>replacingOccurrences(of:with:)\<close>: every occurrence, found left to right, is replaced.\<close>

function replacingOccurrences :: "string \<Rightarrow> string \<Rightarrow> string \<Rightarrow> string" where
  "replacingOccurrences [] target repl = []"
| "replacingOccurrences (c # cs) target repl =
     (if target \<noteq> [] \<and> prefix target (c # cs)
      then repl @ replacingOccurrences (drop (length target) (c # cs)) target repl
      else c # replacingOccurrences cs target repl)"
  by pat_completeness auto
termination
  by (relation "measure (\<lambda>(s, target, repl). length s)") auto

record RecordingSession =
  sessionOutputPath :: string
  recordMic :: bool
  recordSystem :: bool
  micPath :: "string option"
  sysPath :: "string option"

text \<open>
  \<^verbatim>\<open>RecordingSession.start()\<close>: the paths it chooses. \<open>startError\<close> is the error thrown by
  a platform recorder while starting, if any; the audio the recorders write is part of the
  file system handed to \<^verbatim>\<open>stop()\<close>.
\<close>

definition session_start :: "string option \<Rightarrow> RecordingSession \<Rightarrow> string + RecordingSession" where
  "session_start startError s =
     (let s1 = (if recordMic s \<and> recordSystem s
                then (let basePath = replacingOccurrences (sessionOutputPath s) ''.m4a'' []
                      in s\<lparr> micPath := Some (basePath @ ''_temp_mic.m4a''),
                            sysPath := Some (basePath @ ''_temp_sys.m4a'') \<rparr>)
                else s)
      in (case startError of Some e \<Rightarrow> Inl e | None \<Rightarrow> Inr s1))"

text \<open>
  The external mixing tool: given its path, its arguments and the file system, running it
  throws, or it exits with a status and leaves a file system behind. \<open>ffmpegPath\<close> is the
  result of \<^verbatim>\<open>which("ffmpeg")\<close>.
\<close>

datatype run_result = RunThrows | Exited int filesystem

type_synonym tool = "string \<Rightarrow> string list \<Rightarrow> filesystem \<Rightarrow> run_result"

text \<open>Two tools for examples: one that cannot be run, one that writes its last argument and exits with 0.\<close>

definition brokenTool :: tool where
  "brokenTool path args fs = RunThrows"

definition mixingTool :: tool where
  "mixingTool path args fs = Exited 0 (fs(last args \<mapsto> ''mixed audio''))"

definition mergeArguments :: "string \<Rightarrow> string \<Rightarrow> string \<Rightarrow> string list" where
  "mergeArguments mic system output =
     [''-y'', ''-i'', mic, ''-i'', system,
      ''-filter_complex'', ''[0:a][1:a]amix=inputs=2:duration=longest[a]'',
      ''-map'', ''[a]'', ''-c:a'', ''aac'', ''-b:a'', ''192k'', output]"

definition keepSeparate :: "string \<Rightarrow> string \<Rightarrow> string \<Rightarrow> filesystem \<Rightarrow> filesystem" where
  "keepSeparate mic system output fs =
     (let basePath = replacingOccurrences output ''.m4a'' [];
          micFinal = basePath @ ''_mic.m4a'';
          sysFinal = basePath @ ''_system.m4a'';
          fs1 = try_discard fs (moveItem fs mic micFinal)
      in try_discard fs1 (moveItem fs1 system sysFinal))"

definition mergeAudioFiles ::
  "string option \<Rightarrow> tool \<Rightarrow> string \<Rightarrow> string \<Rightarrow> string \<Rightarrow> filesystem \<Rightarrow> filesystem" where
  "mergeAudioFiles ffmpegPath ffmpeg mic system output fs =
     (case ffmpegPath of
        Some path \<Rightarrow>
          (case ffmpeg path (mergeArguments mic system output) fs of
             Exited status fs1 \<Rightarrow>
               if status = 0
               then (let fs2 = try_discard fs1 (removeItem fs1 mic)
                     in try_discard fs2 (removeItem fs2 system))
               else keepSeparate mic system output fs1
           | RunThrows \<Rightarrow> keepSeparate mic system output fs)
      | None \<Rightarrow> keepSeparate mic system output fs)"

definition session_stop ::
  "string option \<Rightarrow> tool \<Rightarrow> RecordingSession \<Rightarrow> filesystem \<Rightarrow> filesystem" where
  "session_stop ffmpegPath ffmpeg s fs =
     (case micPath s of
        Some mic \<Rightarrow>
          (case sysPath s of
             Some sys \<Rightarrow> mergeAudioFiles ffmpegPath ffmpeg mic sys (sessionOutputPath s) fs
           | None \<Rightarrow> fs)
      | None \<Rightarrow> fs)"

text \<open>
  The \<^verbatim>\<open>record\<close> command: the options are read in order, the session is started, the
  helper waits for the interrupt, stops the session and reports. The result is the file
  system, the JSON lines printed (success, message, error, output path) and the exit code.
  \<open>fs\<close> is the file system at the time of the interrupt.
\<close>

datatype JSONOutput = JSONOutput bool "string option" "string option" "string option"

fun parseOption :: "string \<Rightarrow> RecordingSession \<Rightarrow> RecordingSession" where
  "parseOption arg s =
     (if arg = ''--mic'' then s\<lparr> recordMic := True, recordSystem := False \<rparr>
      else if arg = ''--system'' then s\<lparr> recordMic := False, recordSystem := True \<rparr>
      else if arg = ''--both'' then s\<lparr> recordMic := True, recordSystem := True \<rparr>
      else s)"

definition recordCommand ::
  "string \<Rightarrow> string list \<Rightarrow> string option \<Rightarrow> string option \<Rightarrow> tool \<Rightarrow> filesystem
     \<Rightarrow> filesystem \<times> JSONOutput list \<times> int" where
  "recordCommand output options startError ffmpegPath ffmpeg fs =
     (let session = fold parseOption options
                      \<lparr> sessionOutputPath = output, recordMic = True, recordSystem = False,
                        micPath = None, sysPath = None \<rparr>
      in (case session_start startError session of
            Inl e \<Rightarrow> (fs, [JSONOutput False None (Some e) None], 1)
          | Inr s \<Rightarrow>
              (session_stop ffmpegPath ffmpeg s fs,
               [JSONOutput True (Some ''Recording started'') None (Some (sessionOutputPath s)),
                JSONOutput True (Some ''Recording stopped'') None (Some (sessionOutputPath s))],
               0)))"

section \<open>Shared lemmas\<close>

text \<open>\<open>str_includes\<close> is the substring relation.\<close>

lemma str_includes_iff: "str_includes s sub \<longleftrightarrow> (\<exists>ps ss. s = ps @ sub @ ss)"
proof (induction s)
  case Nil
  then show ?case by auto
next
  case (Cons c cs)
  show ?case
  proof
    assume "str_includes (c # cs) sub"
    then consider "prefix sub (c # cs)" | "str_includes cs sub" by auto
    then show "\<exists>ps ss. c # cs = ps @ sub @ ss"
    proof cases
      case 1
      then obtain ss where "c # cs = sub @ ss" by (auto simp: prefix_def)
      then have "c # cs = [] @ sub @ ss" by simp
      then show ?thesis by blast
    next
      case 2
      with Cons.IH obtain ps ss where "cs = ps @ sub @ ss" by blast
      then have "c # cs = (c # ps) @ sub @ ss" by simp
      then show ?thesis by blast
    qed
  next
    assume "\<exists>ps ss. c # cs = ps @ sub @ ss"
    then obtain ps ss where e: "c # cs = ps @ sub @ ss" by blast
    show "str_includes (c # cs) sub"
    proof (cases ps)
      case Nil
      with e have "prefix sub (c # cs)" by (simp add: prefix_def)
      then show ?thesis by simp
    next
      case (Cons p ps')
      with e have "cs = ps' @ sub @ ss" by simp
      with Cons.IH have "str_includes cs sub" by blast
      then show ?thesis by simp
    qed
  qed
qed

lemma str_includes_sublist: "str_includes s sub \<longleftrightarrow> sublist sub s"
  by (simp add: str_includes_iff sublist_def)

text \<open>The methods of the two recorders, for unfolding.\<close>

lemmas recorder_defs = start_def stop_def stop_begin_def stop_finish_def stop_timeout_def
  exited_def pause_def resume_def kill_def emit_def sendSignal_def getElapsedTime_def
  setConfig_def getConfig_def

lemmas native_defs = native_start_def native_stop_def native_stop_begin_def
  native_stop_finish_def native_stop_timeout_def native_exited_def native_kill_def
  native_emit_def native_sendSignal_def native_getElapsedTime_def native_setConfig_def
  native_getConfig_def

lemma stop_begin_trace:
  assumes "state r = Recording \<or> state r = Paused" and "process r = Some p"
  shows "stop_begin r =
           (r\<lparr> state := Stopping,
               trace := trace r
                 @ (if state r = Paused \<and> platform r \<noteq> Win32 then [Kill p SIGCONT] else [])
                 @ [Emit (StateChange Stopping), Kill p SIGINT, SetTimeout 5000] \<rparr>, None)"
  using assms by (auto simp: stop_begin_def emit_def sendSignal_def Let_def)

lemma native_stop_begin_trace:
  assumes "nstate n = NRecording" and "nprocess n = Some p"
  shows "native_stop_begin n =
           (n\<lparr> nstate := NStopping,
               ntrace := ntrace n
                 @ [Emit (StateChange NStopping), Kill p SIGINT, SetTimeout 5000] \<rparr>, None)"
  using assms by (auto simp: native_stop_begin_def native_emit_def native_sendSignal_def Let_def)

lemma emittedErrors_append: "emittedErrors (tr @ tr') = emittedErrors tr @ emittedErrors tr'"
  by (induction tr rule: emittedErrors.induct) simp_all


section \<open>Graceful stop\<close>

lemma stop_race:
  assumes "state r = Recording \<or> state r = Paused" and "process r = Some p"
  shows "\<exists>rest. trace (fst (stop now ea code r)) = trace (fst (stop_begin r)) @ rest
           \<and> (if (case ea of Some d \<Rightarrow> d < 5000 | None \<Rightarrow> False)
               then (\<forall>x sg. Kill x sg \<notin> set rest)
               else Kill p SIGKILL \<in> set rest)"
  using assms(2)
  by (cases ea)
     (auto simp: stop_def stop_begin_trace[OF assms] stop_schedule_def exited_def
        stop_finish_def stop_timeout_def emit_def sendSignal_def Let_def)

lemma native_stop_race:
  assumes "nstate n = NRecording" and "nprocess n = Some q"
  shows "\<exists>rest. ntrace (fst (native_stop ea code n)) = ntrace (fst (native_stop_begin n)) @ rest
           \<and> (if (case ea of Some d \<Rightarrow> d < 5000 | None \<Rightarrow> False)
               then (\<forall>x sg. Kill x sg \<notin> set rest)
               else Kill q SIGKILL \<in> set rest)"
  using assms(2)
  by (cases ea)
     (auto simp: native_stop_def native_stop_begin_trace[OF assms] stop_schedule_def
        native_exited_def native_stop_finish_def native_stop_timeout_def native_emit_def
        native_sendSignal_def Let_def)

text \<open>
  A single \<^verbatim>\<open>stop()\<close> taken by itself, with no timer of an earlier \<^verbatim>\<open>stop()\<close> pending. Called
  while Recording or Paused on a recorder that holds its subprocess, it first sends SIGINT
  (after SIGCONT when the FFmpeg recorder was paused on a non-Windows host) and arms a
  5000 ms timer; every effect of the rest of the call comes after these. If the subprocess
  exits within the 5000 ms, no signal at all follows the interrupt; if it has not, SIGKILL
  is sent to it.
\<close>

lemma isolated_stop_protocol:
  assumes "state r = Recording \<or> state r = Paused" and "process r = Some p"
    and "nstate n = NRecording" and "nprocess n = Some q"
  shows "trace (fst (stop_begin r)) =
           trace r @ (if state r = Paused \<and> platform r \<noteq> Win32 then [Kill p SIGCONT] else [])
             @ [Emit (StateChange Stopping), Kill p SIGINT, SetTimeout 5000]
     \<and> (\<exists>rest. trace (fst (stop now ea code r)) = trace (fst (stop_begin r)) @ rest
           \<and> (if (case ea of Some d \<Rightarrow> d < 5000 | None \<Rightarrow> False)
               then (\<forall>x sg. Kill x sg \<notin> set rest)
               else Kill p SIGKILL \<in> set rest))
     \<and> ntrace (fst (native_stop_begin n)) =
           ntrace n @ [Emit (StateChange NStopping), Kill q SIGINT, SetTimeout 5000]
     \<and> (\<exists>rest. ntrace (fst (native_stop ea code n)) = ntrace (fst (native_stop_begin n)) @ rest
           \<and> (if (case ea of Some d \<Rightarrow> d < 5000 | None \<Rightarrow> False)
               then (\<forall>x sg. Kill x sg \<notin> set rest)
               else Kill q SIGKILL \<in> set rest))"
proof -
  have a: "trace (fst (stop_begin r)) =
           trace r @ (if state r = Paused \<and> platform r \<noteq> Win32 then [Kill p SIGCONT] else [])
             @ [Emit (StateChange Stopping), Kill p SIGINT, SetTimeout 5000]"
    by (simp add: stop_begin_trace[OF assms(1,2)])
  have b: "ntrace (fst (native_stop_begin n)) =
           ntrace n @ [Emit (StateChange NStopping), Kill q SIGINT, SetTimeout 5000]"
    by (simp add: native_stop_begin_trace[OF assms(3,4)])
  from a b stop_race[OF assms(1,2)] native_stop_race[OF assms(3,4)]
  show ?thesis by blast
qed

lemma isolated_stop_protocol_example:
  "trace (fst (stop 9000 (Some 1200) 255
      \<lparr> state = Paused, process = Some 41, config = 0, platform = Darwin, startTime = 1000,
        pausedDuration = 0, pauseStartTime = 4000, heap = [Map.empty], trace = [] \<rparr>))
     = [Kill 41 SIGCONT, Emit (StateChange Stopping), Kill 41 SIGINT, SetTimeout 5000,
        Emit (StateChange Idle)]
   \<and> ntrace (fst (native_stop None 137
      \<lparr> nstate = NRecording, nprocess = Some 42, nconfig = 0, nstartTime = 1000,
        nheap = [Map.empty], ntrace = [] \<rparr>))
     = [Emit (StateChange NStopping), Kill 42 SIGINT, SetTimeout 5000, Kill 42 SIGKILL,
        Emit (StateChange NIdle)]"
  using isolated_stop_protocol
    [of "\<lparr> state = Paused, process = Some 41, config = 0, platform = Darwin, startTime = 1000,
          pausedDuration = 0, pauseStartTime = 4000, heap = [Map.empty], trace = [] \<rparr>" 41
        "\<lparr> nstate = NRecording, nprocess = Some 42, nconfig = 0, nstartTime = 1000,
          nheap = [Map.empty], ntrace = [] \<rparr>" 42 9000 "Some 1200" 255]
  by (simp add: recorder_defs native_defs stop_schedule_def)

text \<open>
  Claim C1 against the code. The timer armed by \<^verbatim>\<open>stop()\<close> is never cleared, and its callback
  kills whatever \<^verbatim>\<open>this.process\<close> is when it fires. An FFmpeg recorder is started at time
  1000 with subprocess 41 and stopped at 2000; the subprocess exits 300 ms later, well
  within the timeout. The recorder is started again at 3000 with subprocess 42 and stopped
  at 6900. At 7000 the timer of the first \<^verbatim>\<open>stop()\<close> is due: subprocess 42 is Recording with
  its handle held when the second \<^verbatim>\<open>stop()\<close> is called, and it receives SIGKILL 100 ms after
  its SIGINT instead of after 5000 ms. The native recorder does the same.
\<close>

theorem stale_stop_timer_kills_next_subprocess:
  "state (fold perform
       [(1000, CallStart (Spawned 41)), (2000, CallStop), (2300, ProcessExited 255),
        (2300, StopContinuation), (3000, CallStart (Spawned 42))]
       (newAudioRecorder Darwin [[''index'' \<mapsto> VNum 0, ''name'' \<mapsto> VStr ''Mic'']]
          [''micDevice'' \<mapsto> VRef 0, ''outputPath'' \<mapsto> VStr ''out.m4a''])) = Recording
   \<and> process (fold perform
       [(1000, CallStart (Spawned 41)), (2000, CallStop), (2300, ProcessExited 255),
        (2300, StopContinuation), (3000, CallStart (Spawned 42))]
       (newAudioRecorder Darwin [[''index'' \<mapsto> VNum 0, ''name'' \<mapsto> VStr ''Mic'']]
          [''micDevice'' \<mapsto> VRef 0, ''outputPath'' \<mapsto> VStr ''out.m4a''])) = Some 42
   \<and> trace (fold perform
       [(1000, CallStart (Spawned 41)), (2000, CallStop), (2300, ProcessExited 255),
        (2300, StopContinuation), (3000, CallStart (Spawned 42)), (6900, CallStop),
        (7000, StopTimer)]
       (newAudioRecorder Darwin [[''index'' \<mapsto> VNum 0, ''name'' \<mapsto> VStr ''Mic'']]
          [''micDevice'' \<mapsto> VRef 0, ''outputPath'' \<mapsto> VStr ''out.m4a'']))
     = [Spawn 41, Emit (StateChange Recording),
        Emit (StateChange Stopping), Kill 41 SIGINT, SetTimeout 5000,
        Emit (StateChange Idle),
        Spawn 42, Emit (StateChange Recording),
        Emit (StateChange Stopping), Kill 42 SIGINT, SetTimeout 5000,
        Kill 42 SIGKILL]
   \<and> ntrace (native_stop_timeout (fst (native_stop_begin (fst (native_start 3000 (Spawned 42)
       (native_stop_finish (native_exited 0 (fst (native_stop_begin (fst (native_start 1000
          (Spawned 41)
          (newNativeAudioRecorder [] [''outputPath'' \<mapsto> VStr ''out.m4a'']))))))))))))
     = [Spawn 41, Emit (StateChange NRecording),
        Emit (StateChange NStopping), Kill 41 SIGINT, SetTimeout 5000,
        Emit (StateChange NIdle),
        Spawn 42, Emit (StateChange NRecording),
        Emit (StateChange NStopping), Kill 42 SIGINT, SetTimeout 5000,
        Kill 42 SIGKILL]"
  by (simp add: recorder_defs native_defs newAudioRecorder_def newNativeAudioRecorder_def
        getField_def lookupObj_def spread_def defaultRecorderConfig_def
        defaultNativeConfig_def Let_def)


section \<open>Two calls of startRecording\<close>

lemma step_guard_closed:
  "isStartingRecording a \<or> recorder a \<noteq> None \<or> recordingState a \<noteq> NIdle \<Longrightarrow>
     startRecording_step e (NotCalled, a) = (Returned, a)"
  by simp

lemma step_guard_open:
  assumes "\<not> isStartingRecording a" and "recorder a = None" and "recordingState a = NIdle"
    and "selectedMic a \<noteq> None \<or> selectedSystemAudio a \<noteq> None"
  shows "\<exists>rm rs. startRecording_step e (NotCalled, a)
            = (AwaitingDir rm rs, a\<lparr> isStartingRecording := True \<rparr>)"
  using assms by (auto simp: Let_def)

lemma step_spawn:
  assumes "dirOk e" and "spawnResult e = Spawned p"
    and "startRecording_step e (AwaitingDir rm rs, a) = (t', a')"
  shows "t' = AwaitingStart None \<and> recorder a' \<noteq> None \<and> spawnCount a' = spawnCount a + 1"
  using assms
  by (auto simp: Let_def spawnCount_def native_start_def native_emit_def
        newNativeAudioRecorder_def)

lemma step_finish:
  "startRecording_step e (AwaitingStart None, a)
     = (Returned, a\<lparr> updateInterval := True, isStartingRecording := False \<rparr>)"
  by (simp add: Let_def)

lemma start_inv_own_step:
  assumes inv: "start_inv k t u a" and env: "dirOk e" "spawnResult e = Spawned p"
    and st: "startRecording_step e (t, a) = (t', a')"
  shows "start_inv k t' u a'"
proof (cases t)
  case NotCalled
  with inv have g: "\<not> isStartingRecording a" "recorder a = None" "recordingState a = NIdle"
    "selectedMic a \<noteq> None \<or> selectedSystemAudio a \<noteq> None" and u: "u = NotCalled"
    and k: "spawnCount a = k"
    by (auto simp: start_inv_def)
  from step_guard_open[OF g, of e] st NotCalled obtain rm rs
    where "t' = AwaitingDir rm rs" "a' = a\<lparr> isStartingRecording := True \<rparr>" by auto
  with u k show ?thesis by (simp add: start_inv_def spawnCount_def)
next
  case (AwaitingDir rm rs)
  with inv have u: "inactive u" and k: "spawnCount a = k" by (auto simp: start_inv_def)
  from step_spawn[OF env, of rm rs a t' a'] st AwaitingDir
  have "t' = AwaitingStart None" "recorder a' \<noteq> None" "spawnCount a' = spawnCount a + 1"
    by auto
  with u k show ?thesis by (simp add: start_inv_def)
next
  case (AwaitingStart err)
  with inv have e: "err = None" and u: "inactive u" and r: "recorder a \<noteq> None"
    and k: "spawnCount a = k + 1" by (auto simp: start_inv_def)
  from st AwaitingStart e step_finish[of e a]
  have "t' = Returned" "a' = a\<lparr> updateInterval := True, isStartingRecording := False \<rparr>"
    by auto
  with u r k show ?thesis by (simp add: start_inv_def spawnCount_def)
next
  case Returned
  with st have "t' = Returned" "a' = a" by auto
  with inv Returned show ?thesis by simp
next
  case Rejected
  with inv show ?thesis by (simp add: start_inv_def)
qed

lemma start_inv_other_step:
  assumes inv: "start_inv k t u a" and env: "dirOk e" "spawnResult e = Spawned p"
    and st: "startRecording_step e (u, a) = (u', a')"
  shows "start_inv k t u' a' \<or> start_inv k u' t a'"
proof (cases "t = NotCalled")
  case True
  with inv have "u = NotCalled" by (auto simp: start_inv_def)
  with inv True have "start_inv k u t a" by simp
  from start_inv_own_step[OF this env st] show ?thesis by simp
next
  case False
  with inv have closed: "isStartingRecording a \<or> recorder a \<noteq> None"
    and u: "inactive u" by (auto simp: start_inv_def)
  from u have "u' = Returned \<and> a' = a"
  proof (cases u)
    case NotCalled
    with st step_guard_closed[of a e] closed show ?thesis by auto
  next
    case Returned
    with st show ?thesis by auto
  qed simp_all
  with inv False show ?thesis by (auto simp: start_inv_def)
qed

lemma run_two_inv:
  assumes "start_inv k t1 t2 a \<or> start_inv k t2 t1 a"
    and "dirOk e1" "spawnResult e1 = Spawned p1" "dirOk e2" "spawnResult e2 = Spawned p2"
    and "run_two e1 e2 sched (t1, t2, a) = (t1', t2', a')"
  shows "start_inv k t1' t2' a' \<or> start_inv k t2' t1' a'"
  using assms(1,6)
proof (induction sched arbitrary: t1 t2 a)
  case Nil
  then show ?case by simp
next
  case (Cons b sched)
  show ?case
  proof (cases b)
    case False
    obtain t1n an where s: "startRecording_step e1 (t1, a) = (t1n, an)"
      by (cases "startRecording_step e1 (t1, a)")
    from Cons.prems(1) have "start_inv k t1n t2 an \<or> start_inv k t2 t1n an"
      using start_inv_own_step[OF _ assms(2,3) s] start_inv_other_step[OF _ assms(2,3) s]
      by blast
    moreover from Cons.prems(2) False s
    have "run_two e1 e2 sched (t1n, t2, an) = (t1', t2', a')" by simp
    ultimately show ?thesis by (rule Cons.IH)
  next
    case True
    obtain t2n an where s: "startRecording_step e2 (t2, a) = (t2n, an)"
      by (cases "startRecording_step e2 (t2, a)")
    from Cons.prems(1) have "start_inv k t1 t2n an \<or> start_inv k t2n t1 an"
      using start_inv_own_step[OF _ assms(4,5) s] start_inv_other_step[OF _ assms(4,5) s]
      by blast
    moreover from Cons.prems(2) True s
    have "run_two e1 e2 sched (t1, t2n, an) = (t1', t2', a')" by simp
    ultimately show ?thesis by (rule Cons.IH)
  qed
qed

text \<open>
  Claim C2. Let the application be idle with an audio source selected, on a host where the
  recordings directory can be created and the spawn succeeds. Two calls of
  \<^verbatim>\<open>startRecording\<close>, interleaved at their suspension points in any way and both run to
  their end, spawn exactly one subprocess. A call that finds the starting flag set returns
  at once and changes nothing, and a second \<^verbatim>\<open>start()\<close> on a native recorder that has just
  started fails with an error and spawns nothing.
\<close>

theorem double_start_spawns_once:
  assumes "\<not> isStartingRecording a" and "recorder a = None" and "recordingState a = NIdle"
    and "selectedMic a \<noteq> None \<or> selectedSystemAudio a \<noteq> None"
    and "dirOk e1" and "spawnResult e1 = Spawned p1"
    and "dirOk e2" and "spawnResult e2 = Spawned p2"
    and "run_two e1 e2 sched (NotCalled, NotCalled, a) = (Returned, Returned, a')"
  shows "spawnCount a' = spawnCount a + 1
     \<and> (isStartingRecording b \<longrightarrow> startRecording_step e (NotCalled, b) = (Returned, b))
     \<and> (nstate n = NIdle \<longrightarrow>
          native_start now2 sp (fst (native_start now1 (Spawned p) n))
            = (fst (native_start now1 (Spawned p) n),
               Some (Error ''Cannot start recording in state: recording'')))"
proof -
  have "start_inv (spawnCount a) NotCalled NotCalled a"
    using assms(1-4) by (simp add: start_inv_def)
  then have "start_inv (spawnCount a) NotCalled NotCalled a
             \<or> start_inv (spawnCount a) NotCalled NotCalled a" by simp
  from run_two_inv[OF this assms(5-9)]
  have "spawnCount a' = spawnCount a + 1" by (auto simp: start_inv_def)
  moreover have "isStartingRecording b \<longrightarrow> startRecording_step e (NotCalled, b) = (Returned, b)"
    by simp
  moreover have "nstate n = NIdle \<longrightarrow>
          native_start now2 sp (fst (native_start now1 (Spawned p) n))
            = (fst (native_start now1 (Spawned p) n),
               Some (Error ''Cannot start recording in state: recording''))"
    by (simp add: native_start_def native_emit_def)
  ultimately show ?thesis by blast
qed

theorem double_start_spawns_once_witness:
  "fst (run_two (goodHost 7) (goodHost 8) [False, True, False, False]
          (NotCalled, NotCalled, idleApp)) = Returned
   \<and> fst (snd (run_two (goodHost 7) (goodHost 8) [False, True, False, False]
          (NotCalled, NotCalled, idleApp))) = Returned
   \<and> spawnCount (snd (snd (run_two (goodHost 7) (goodHost 8) [False, True, False, False]
          (NotCalled, NotCalled, idleApp)))) = 1"
proof -
  let ?res = "run_two (goodHost 7) (goodHost 8) [False, True, False, False]
                (NotCalled, NotCalled, idleApp)"
  have t: "fst ?res = Returned" "fst (snd ?res) = Returned"
    by (simp_all add: goodHost_def idleApp_def Let_def native_start_def native_emit_def
          newNativeAudioRecorder_def)
  then have r: "?res = (Returned, Returned, snd (snd ?res))"
    by (metis prod.collapse)
  have i: "\<not> isStartingRecording idleApp" "recorder idleApp = None"
    "recordingState idleApp = NIdle"
    "selectedMic idleApp \<noteq> None \<or> selectedSystemAudio idleApp \<noteq> None"
    by (simp_all add: idleApp_def)
  have h: "dirOk (goodHost 7)" "spawnResult (goodHost 7) = Spawned 7"
    "dirOk (goodHost 8)" "spawnResult (goodHost 8) = Spawned 8"
    by (simp_all add: goodHost_def)
  from double_start_spawns_once[OF i h r]
  have "spawnCount (snd (snd ?res)) = spawnCount idleApp + 1" by blast
  moreover have "spawnCount idleApp = 0" by (simp add: spawnCount_def idleApp_def)
  ultimately show ?thesis using t by simp
qed


section \<open>The subprocess exits while Recording\<close>

text \<open>
  Claim C3, as stated, fails: when the subprocess of a recording native recorder exits, the
  state goes back to Idle, yet no error event is emitted. Here the recorder was started at
  time 1000 with subprocess 7, which then exits with code 1.
\<close>

theorem unexpected_exit_emits_no_error:
  "nstate (fst (native_start 1000 (Spawned 7)
             (newNativeAudioRecorder [] [''outputPath'' \<mapsto> VStr ''/tmp/out.m4a'']))) = NRecording
   \<and> nstate (native_exited 1 (fst (native_start 1000 (Spawned 7)
             (newNativeAudioRecorder [] [''outputPath'' \<mapsto> VStr ''/tmp/out.m4a''])))) = NIdle
   \<and> emittedErrors (ntrace (native_exited 1 (fst (native_start 1000 (Spawned 7)
             (newNativeAudioRecorder [] [''outputPath'' \<mapsto> VStr ''/tmp/out.m4a''])))) ) = []"
  by (simp add: native_defs newNativeAudioRecorder_def)

text \<open>
  Claim C3, amended. Whenever the subprocess exits while the recorder is Recording, the
  exit handler sets the state to Idle and notifies the listeners with a state-change event
  for Idle; the FFmpeg recorder emits a finished event before it when the exit code is 0.
  The handler has no other effect: it emits no error event, sends no signal, spawns nothing
  and touches no file, so no merge is attempted.
\<close>

theorem unexpected_exit_forces_idle:
  "(nstate n = NRecording \<longrightarrow>
      native_exited code n
        = n\<lparr> nstate := NIdle, ntrace := ntrace n @ [Emit (StateChange NIdle)] \<rparr>
      \<and> emittedErrors (ntrace (native_exited code n)) = emittedErrors (ntrace n))
   \<and> (state r = Recording \<longrightarrow>
      exited now code r
        = r\<lparr> state := Idle,
             trace := trace r
               @ (if code = 0
                  then [Emit (Finished (getField (heap r) (config r) ''outputPath'')
                                       (now - startTime r - pausedDuration r))]
                  else [])
               @ [Emit (StateChange Idle)] \<rparr>
      \<and> emittedErrors (trace (exited now code r)) = emittedErrors (trace r))"
  by (auto simp: native_exited_def native_emit_def exited_def emit_def getElapsedTime_def
        Let_def emittedErrors_append)

theorem unexpected_exit_forces_idle_witness:
  "native_exited 1
      \<lparr> nstate = NRecording, nprocess = Some 42, nconfig = 0, nstartTime = 1000,
        nheap = [Map.empty], ntrace = [Spawn 42, Emit (StateChange NRecording)] \<rparr>
     = \<lparr> nstate = NIdle, nprocess = Some 42, nconfig = 0, nstartTime = 1000,
        nheap = [Map.empty],
        ntrace = [Spawn 42, Emit (StateChange NRecording), Emit (StateChange NIdle)] \<rparr>
   \<and> trace (exited 7000 1
      \<lparr> state = Recording, process = Some 41, config = 0, platform = Darwin, startTime = 1000,
        pausedDuration = 0, pauseStartTime = 0, heap = [Map.empty],
        trace = [Spawn 41, Emit (StateChange Recording)] \<rparr>)
     = [Spawn 41, Emit (StateChange Recording), Emit (StateChange Idle)]"
  using unexpected_exit_forces_idle
    [of "\<lparr> nstate = NRecording, nprocess = Some 42, nconfig = 0, nstartTime = 1000,
          nheap = [Map.empty], ntrace = [Spawn 42, Emit (StateChange NRecording)] \<rparr>" 1
        "\<lparr> state = Recording, process = Some 41, config = 0, platform = Darwin,
          startTime = 1000, pausedDuration = 0, pauseStartTime = 0, heap = [Map.empty],
          trace = [Spawn 41, Emit (StateChange Recording)] \<rparr>" 7000]
  by simp


section \<open>Elapsed time\<close>

text \<open>
  The clock invariant: at time \<open>t\<close>, the start time plus the accumulated paused duration
  lies in the past, and while Paused it lies before the moment of pausing.
\<close>

lemma clock_inv_perform:
  assumes "state r \<noteq> Idle \<longrightarrow> startTime r + pausedDuration r \<le> t"
    and "state r = Paused \<longrightarrow>
           startTime r + pausedDuration r \<le> pauseStartTime r \<and> pauseStartTime r \<le> t"
    and "t \<le> t'"
  shows "(state (perform (t', c) r) \<noteq> Idle \<longrightarrow>
            startTime (perform (t', c) r) + pausedDuration (perform (t', c) r) \<le> t')
       \<and> (state (perform (t', c) r) = Paused \<longrightarrow>
            startTime (perform (t', c) r) + pausedDuration (perform (t', c) r)
              \<le> pauseStartTime (perform (t', c) r)
            \<and> pauseStartTime (perform (t', c) r) \<le> t')"
  using assms
  by (cases c) (auto simp: recorder_defs Let_def split: option.splits spawn_result.splits)

lemma clock_inv_run:
  assumes "state r \<noteq> Idle \<longrightarrow> startTime r + pausedDuration r \<le> t"
    and "state r = Paused \<longrightarrow>
           startTime r + pausedDuration r \<le> pauseStartTime r \<and> pauseStartTime r \<le> t"
    and "sorted (t # map fst cs)"
  shows "(state (fold perform cs r) \<noteq> Idle \<longrightarrow>
            startTime (fold perform cs r) + pausedDuration (fold perform cs r)
              \<le> last (t # map fst cs))
       \<and> (state (fold perform cs r) = Paused \<longrightarrow>
            startTime (fold perform cs r) + pausedDuration (fold perform cs r)
              \<le> pauseStartTime (fold perform cs r)
            \<and> pauseStartTime (fold perform cs r) \<le> last (t # map fst cs))"
  using assms
proof (induction cs arbitrary: t r)
  case Nil
  then show ?case by simp
next
  case (Cons c cs)
  obtain t' a where c: "c = (t', a)" by (cases c)
  from Cons.prems(3) c have le: "t \<le> t'" and s: "sorted (t' # map fst cs)" by auto
  note step = clock_inv_perform[OF Cons.prems(1) Cons.prems(2) le, of a]
  from Cons.IH[OF conjunct1[OF step] conjunct2[OF step] s] show ?case by (simp add: c)
qed

lemma elapsed_nonneg_run:
  assumes "sorted (map fst cs)" and "\<forall>c \<in> set cs. fst c \<le> now"
  shows "0 \<le> getElapsedTime now (fold perform cs (newAudioRecorder pf h cfg))"
proof (cases cs)
  case Nil
  then show ?thesis by (simp add: getElapsedTime_def newAudioRecorder_def)
next
  case (Cons c cs')
  let ?r = "fold perform cs (newAudioRecorder pf h cfg)"
  let ?t = "last (fst c # map fst cs)"
  have s: "sorted (fst c # map fst cs)" using assms(1) Cons by simp
  have i1: "state (newAudioRecorder pf h cfg) \<noteq> Idle \<longrightarrow>
              startTime (newAudioRecorder pf h cfg) + pausedDuration (newAudioRecorder pf h cfg)
                \<le> fst c"
    and i2: "state (newAudioRecorder pf h cfg) = Paused \<longrightarrow>
              startTime (newAudioRecorder pf h cfg) + pausedDuration (newAudioRecorder pf h cfg)
                \<le> pauseStartTime (newAudioRecorder pf h cfg)
              \<and> pauseStartTime (newAudioRecorder pf h cfg) \<le> fst c"
    by (simp_all add: newAudioRecorder_def)
  note inv = clock_inv_run[OF i1 i2 s]
  have "?t \<in> set (map fst cs)" using Cons by (simp add: last_map)
  then have "?t \<le> now" using assms(2) by auto
  with inv show ?thesis by (auto simp: getElapsedTime_def)
qed

text \<open>
  Claim C4, as stated, fails: the elapsed time is not clamped, and \<^verbatim>\<open>Date.now()\<close> is the wall
  clock. A recorder is started when the clock reads 1000; the clock is then set back and
  reads 400 at the next call of \<^verbatim>\<open>getElapsedTime\<close>, which returns -600.
\<close>

theorem elapsed_negative_after_clock_step_back:
  "state (fst (start 1000 (Spawned 41)
       (newAudioRecorder Darwin [[''index'' \<mapsto> VNum 0, ''name'' \<mapsto> VStr ''Mic'']]
          [''micDevice'' \<mapsto> VRef 0, ''outputPath'' \<mapsto> VStr ''out.m4a'']))) = Recording
   \<and> getElapsedTime 400 (fst (start 1000 (Spawned 41)
       (newAudioRecorder Darwin [[''index'' \<mapsto> VNum 0, ''name'' \<mapsto> VStr ''Mic'']]
          [''micDevice'' \<mapsto> VRef 0, ''outputPath'' \<mapsto> VStr ''out.m4a'']))) = - 600"
  by (simp add: recorder_defs newAudioRecorder_def getField_def lookupObj_def spread_def
        defaultRecorderConfig_def)

text \<open>
  Claim C4, amended. While Recording the elapsed time is now minus startTime minus the
  accumulated paused duration; while Paused it is pauseStartTime minus startTime minus the
  accumulated paused duration, whatever the clock says. As long as the clock does not run
  backwards, it is never negative: after any sequence of calls and events on a new
  recorder, taken at times that do not decrease, the elapsed time read at a time not before
  them is at least 0. A \<^verbatim>\<open>pause()\<close> at \<open>t1\<close> followed by a \<^verbatim>\<open>resume()\<close> at \<open>t2\<close> (on a host where
  they apply) leaves the elapsed time at \<open>t2\<close> equal to its value at \<open>t1\<close>, and afterwards it
  grows with the clock from there: the paused interval is excluded.
\<close>

theorem elapsed_time_accounting:
  "(state r = Recording \<longrightarrow> getElapsedTime now r = now - startTime r - pausedDuration r)
   \<and> (state r = Paused \<longrightarrow>
        getElapsedTime now r = pauseStartTime r - startTime r - pausedDuration r)
   \<and> (sorted (map fst cs) \<and> (\<forall>c \<in> set cs. fst c \<le> now) \<longrightarrow>
        0 \<le> getElapsedTime now (fold perform cs (newAudioRecorder pf h cfg)))
   \<and> (state r = Recording \<and> platform r \<noteq> Win32 \<and> process r = Some p \<longrightarrow>
        state (fst (pause t1 r)) = Paused
        \<and> state (fst (resume t2 (fst (pause t1 r)))) = Recording
        \<and> getElapsedTime t2 (fst (resume t2 (fst (pause t1 r)))) = getElapsedTime t1 r
        \<and> getElapsedTime t3 (fst (resume t2 (fst (pause t1 r))))
            = getElapsedTime t1 r + (t3 - t2))"
proof (intro conjI)
  show "state r = Recording \<longrightarrow> getElapsedTime now r = now - startTime r - pausedDuration r"
    by (simp add: getElapsedTime_def)
  show "state r = Paused \<longrightarrow>
        getElapsedTime now r = pauseStartTime r - startTime r - pausedDuration r"
    by (simp add: getElapsedTime_def)
  show "sorted (map fst cs) \<and> (\<forall>c \<in> set cs. fst c \<le> now) \<longrightarrow>
        0 \<le> getElapsedTime now (fold perform cs (newAudioRecorder pf h cfg))"
    using elapsed_nonneg_run by blast
  show "state r = Recording \<and> platform r \<noteq> Win32 \<and> process r = Some p \<longrightarrow>
        state (fst (pause t1 r)) = Paused
        \<and> state (fst (resume t2 (fst (pause t1 r)))) = Recording
        \<and> getElapsedTime t2 (fst (resume t2 (fst (pause t1 r)))) = getElapsedTime t1 r
        \<and> getElapsedTime t3 (fst (resume t2 (fst (pause t1 r))))
            = getElapsedTime t1 r + (t3 - t2)"
    by (auto simp: pause_def resume_def emit_def sendSignal_def getElapsedTime_def)
qed

theorem elapsed_time_accounting_witness:
  "getElapsedTime 9000
     (fold perform
        [(1000, CallStart (Spawned 41)), (4000, CallPause), (6000, CallResume)]
        (newAudioRecorder Darwin [[''index'' \<mapsto> VNum 0, ''name'' \<mapsto> VStr ''Mic'']]
           [''micDevice'' \<mapsto> VRef 0, ''outputPath'' \<mapsto> VStr ''out.m4a''])) = 6000
   \<and> getElapsedTime 6000
        (fst (resume 6000 (fst (pause 4000
           \<lparr> state = Recording, process = Some 41, config = 0, platform = Darwin,
             startTime = 1000, pausedDuration = 0, pauseStartTime = 0, heap = [Map.empty],
             trace = [] \<rparr>)))) = 3000"
  using elapsed_time_accounting
    [of "\<lparr> state = Recording, process = Some 41, config = 0, platform = Darwin,
          startTime = 1000, pausedDuration = 0, pauseStartTime = 0, heap = [Map.empty],
          trace = [] \<rparr>" 9000
        "[(1000, CallStart (Spawned 41)), (4000, CallPause), (6000, CallResume)]"
        Darwin "[[''index'' \<mapsto> VNum 0, ''name'' \<mapsto> VStr ''Mic'']]"
        "[''micDevice'' \<mapsto> VRef 0, ''outputPath'' \<mapsto> VStr ''out.m4a'']" 41 4000 6000 6000]
  by (simp add: recorder_defs newAudioRecorder_def getField_def lookupObj_def spread_def
        defaultRecorderConfig_def)


section \<open>Calls from the wrong state\<close>

text \<open>
  Claim C5. A lifecycle call from a state that does not permit it fails, before the call
  suspends or changes anything, with the error naming the state: \<^verbatim>\<open>start()\<close> fails in
  every state but Idle and from Idle fails at most for a missing device when the spawn
  succeeds; \<^verbatim>\<open>stop()\<close> fails in every state but Recording and Paused and succeeds in those;
  \<^verbatim>\<open>pause()\<close> fails in every state but Recording; \<^verbatim>\<open>resume()\<close> fails in every state but
  Paused. On a Windows host \<^verbatim>\<open>pause()\<close> and \<^verbatim>\<open>resume()\<close> change nothing; elsewhere, with a
  subprocess, they send SIGSTOP and SIGCONT and switch the state. The native recorder's
  \<^verbatim>\<open>start()\<close> and \<^verbatim>\<open>stop()\<close> fail in the same way outside Idle and Recording.
\<close>

theorem lifecycle_invalid_state:
  "(state r \<noteq> Idle \<longrightarrow>
      start now sp r
        = (r, Some (Error (''Cannot start recording in state: '' @ stateName (state r)))))
   \<and> (state r = Idle \<longrightarrow>
        snd (start now (Spawned p) r) = None
        \<or> snd (start now (Spawned p) r)
             = Some (Error ''At least one audio device must be configured''))
   \<and> (state r \<noteq> Recording \<and> state r \<noteq> Paused \<longrightarrow>
        stop now ea code r
          = (r, Some (Error (''Cannot stop recording in state: '' @ stateName (state r)))))
   \<and> (state r = Recording \<or> state r = Paused \<longrightarrow> snd (stop now ea code r) = None)
   \<and> (state r \<noteq> Recording \<longrightarrow>
        pause now r = (r, Some (Error (''Cannot pause in state: '' @ stateName (state r)))))
   \<and> (state r = Recording \<longrightarrow> snd (pause now r) = None)
   \<and> (state r \<noteq> Paused \<longrightarrow>
        resume now r = (r, Some (Error (''Cannot resume in state: '' @ stateName (state r)))))
   \<and> (state r = Paused \<longrightarrow> snd (resume now r) = None)
   \<and> (platform r = Win32 \<and> state r = Recording \<longrightarrow> pause now r = (r, None))
   \<and> (platform r = Win32 \<and> state r = Paused \<longrightarrow> resume now r = (r, None))
   \<and> (platform r \<noteq> Win32 \<and> process r = Some p \<and> state r = Recording \<longrightarrow>
        state (fst (pause now r)) = Paused
        \<and> trace (fst (pause now r)) = trace r @ [Kill p SIGSTOP, Emit (StateChange Paused)])
   \<and> (platform r \<noteq> Win32 \<and> process r = Some p \<and> state r = Paused \<longrightarrow>
        state (fst (resume now r)) = Recording
        \<and> trace (fst (resume now r)) = trace r @ [Kill p SIGCONT, Emit (StateChange Recording)])
   \<and> (nstate n \<noteq> NIdle \<longrightarrow>
        native_start now sp n
          = (n, Some (Error (''Cannot start recording in state: '' @ nativeStateName (nstate n)))))
   \<and> (nstate n = NIdle \<longrightarrow> snd (native_start now (Spawned p) n) = None)
   \<and> (nstate n \<noteq> NRecording \<longrightarrow>
        native_stop ea code n
          = (n, Some (Error (''Cannot stop recording in state: '' @ nativeStateName (nstate n)))))
   \<and> (nstate n = NRecording \<longrightarrow> snd (native_stop ea code n) = None)"
  by (auto simp: recorder_defs native_defs Let_def split: option.splits spawn_result.splits)

theorem lifecycle_invalid_state_witness:
  "snd (pause 5
      \<lparr> state = Stopping, process = Some 41, config = 0, platform = Linux, startTime = 0,
        pausedDuration = 0, pauseStartTime = 0, heap = [Map.empty], trace = [] \<rparr>)
     = Some (Error ''Cannot pause in state: stopping'')
   \<and> snd (stop 5 None 0
      \<lparr> state = Stopping, process = Some 41, config = 0, platform = Linux, startTime = 0,
        pausedDuration = 0, pauseStartTime = 0, heap = [Map.empty], trace = [] \<rparr>)
     = Some (Error ''Cannot stop recording in state: stopping'')
   \<and> snd (resume 5
      \<lparr> state = Recording, process = Some 41, config = 0, platform = Linux, startTime = 0,
        pausedDuration = 0, pauseStartTime = 0, heap = [Map.empty], trace = [] \<rparr>)
     = Some (Error ''Cannot resume in state: recording'')
   \<and> fst (pause 5
      \<lparr> state = Recording, process = Some 41, config = 0, platform = Win32, startTime = 0,
        pausedDuration = 0, pauseStartTime = 0, heap = [Map.empty], trace = [] \<rparr>)
     = \<lparr> state = Recording, process = Some 41, config = 0, platform = Win32, startTime = 0,
        pausedDuration = 0, pauseStartTime = 0, heap = [Map.empty], trace = [] \<rparr>
   \<and> snd (native_start 5 (Spawned 43)
      \<lparr> nstate = NRecording, nprocess = Some 42, nconfig = 0, nstartTime = 0,
        nheap = [Map.empty], ntrace = [] \<rparr>)
     = Some (Error ''Cannot start recording in state: recording'')"
  using lifecycle_invalid_state
    [of "\<lparr> state = Stopping, process = Some 41, config = 0, platform = Linux, startTime = 0,
          pausedDuration = 0, pauseStartTime = 0, heap = [Map.empty], trace = [] \<rparr>"
        5 "Spawned 43" 41 None 0
        "\<lparr> nstate = NRecording, nprocess = Some 42, nconfig = 0, nstartTime = 0,
          nheap = [Map.empty], ntrace = [] \<rparr>"]
    lifecycle_invalid_state
    [of "\<lparr> state = Recording, process = Some 41, config = 0, platform = Linux, startTime = 0,
          pausedDuration = 0, pauseStartTime = 0, heap = [Map.empty], trace = [] \<rparr>"
        5 "Spawned 43" 41 None 0
        "\<lparr> nstate = NRecording, nprocess = Some 42, nconfig = 0, nstartTime = 0,
          nheap = [Map.empty], ntrace = [] \<rparr>"]
    lifecycle_invalid_state
    [of "\<lparr> state = Recording, process = Some 41, config = 0, platform = Win32, startTime = 0,
          pausedDuration = 0, pauseStartTime = 0, heap = [Map.empty], trace = [] \<rparr>"
        5 "Spawned 43" 41 None 0
        "\<lparr> nstate = NRecording, nprocess = Some 42, nconfig = 0, nstartTime = 0,
          nheap = [Map.empty], ntrace = [] \<rparr>"]
  by simp


section \<open>A start that fails\<close>

text \<open>
  Claim C6 against the code. With no audio source selected, \<^verbatim>\<open>startRecording\<close> sets the
  starting flag, reports the missing source and returns before the \<^verbatim>\<open>try\<close> whose
  \<^verbatim>\<open>finally\<close> clears the flag: the flag stays set, and once a microphone has been selected
  the next call returns at the guard without any effect. When the spawn fails, the flag is
  cleared, the state is Idle and the error is shown, but the recorder object is kept, and
  the next call again returns at the guard without any effect.
\<close>

theorem startRecording_blocked_after_failed_start:
  "startRecording (goodHost 7) (idleApp\<lparr> selectedMic := None \<rparr>)
     = (Returned, idleApp\<lparr> selectedMic := None, isStartingRecording := True,
                           errorMessage := ''Please select at least one audio source'' \<rparr>)
   \<and> startRecording (goodHost 7)
        (idleApp\<lparr> selectedMic := Some builtinMic, isStartingRecording := True,
                  errorMessage := ''Please select at least one audio source'' \<rparr>)
     = (Returned, idleApp\<lparr> selectedMic := Some builtinMic, isStartingRecording := True,
                           errorMessage := ''Please select at least one audio source'' \<rparr>)
   \<and> fst (startRecording ((goodHost 7)\<lparr> spawnResult := SpawnThrows (Error ''ENOENT'') \<rparr>) idleApp)
       = Returned
   \<and> isStartingRecording
        (snd (startRecording ((goodHost 7)\<lparr> spawnResult := SpawnThrows (Error ''ENOENT'') \<rparr>) idleApp))
       = False
   \<and> recordingState
        (snd (startRecording ((goodHost 7)\<lparr> spawnResult := SpawnThrows (Error ''ENOENT'') \<rparr>) idleApp))
       = NIdle
   \<and> errorMessage
        (snd (startRecording ((goodHost 7)\<lparr> spawnResult := SpawnThrows (Error ''ENOENT'') \<rparr>) idleApp))
       = ''ENOENT''
   \<and> recorder
        (snd (startRecording ((goodHost 7)\<lparr> spawnResult := SpawnThrows (Error ''ENOENT'') \<rparr>) idleApp))
       \<noteq> None
   \<and> startRecording (goodHost 8)
        (snd (startRecording ((goodHost 7)\<lparr> spawnResult := SpawnThrows (Error ''ENOENT'') \<rparr>) idleApp))
     = (Returned,
        snd (startRecording ((goodHost 7)\<lparr> spawnResult := SpawnThrows (Error ''ENOENT'') \<rparr>) idleApp))"
  by (simp add: startRecording_def goodHost_def idleApp_def Let_def native_start_def
        native_emit_def newNativeAudioRecorder_def)


section \<open>Malformed lines on the helper's standard output\<close>

lemma split_newline_nonempty: "split_newline s \<noteq> []"
  by (induction s) (auto split: list.splits)

lemma split_newline_append:
  "split_newline (a @ b) = butlast (split_newline a) @ split_newline (last (split_newline a) @ b)"
proof (induction a)
  case Nil
  then show ?case by simp
next
  case (Cons c cs)
  obtain l ls where s: "split_newline cs = l # ls"
    using split_newline_nonempty[of cs] by (cases "split_newline cs") auto
  show ?case
  proof (cases "c = CHR 0x0A")
    case True
    then show ?thesis using Cons.IH split_newline_nonempty[of cs] by simp
  next
    case False
    show ?thesis
    proof (cases ls)
      case Nil
      with s Cons.IH False show ?thesis by simp
    next
      case (Cons l' ls')
      with s Cons.IH False show ?thesis by (simp split: list.splits)
    qed
  qed
qed

lemma processLines_append:
  "processLines parse opath (xs @ ys)
     = processLines parse opath xs @ processLines parse opath ys"
  by (induction xs) simp_all

lemma emittedEvents_append: "emittedEvents (xs @ ys) = emittedEvents xs @ emittedEvents ys"
  by (induction xs rule: emittedEvents.induct) simp_all

text \<open>
  The chunks in which the stream arrives do not matter: the loop processes the complete
  lines of the whole stream, in order (the text after the last newline stays in the buffer).
\<close>

lemma handleOutput_loop_lines:
  "chunks \<noteq> [] \<Longrightarrow>
     handleOutput_loop parse opath buffer chunks
       = processLines parse opath (butlast (split_newline (buffer @ concat chunks)))"
proof (induction chunks arbitrary: buffer)
  case Nil
  then show ?case by simp
next
  case (Cons c cs)
  show ?case
  proof (cases cs)
    case Nil
    then show ?thesis by (simp add: Let_def)
  next
    case (Cons c' cs')
    then have ne: "cs \<noteq> []" by simp
    have "butlast (split_newline (buffer @ concat (c # cs)))
            = butlast (split_newline (buffer @ c))
              @ butlast (split_newline (last (split_newline (buffer @ c)) @ concat cs))"
      using split_newline_append[of "buffer @ c" "concat cs"] split_newline_nonempty
      by (simp add: butlast_append)
    then show ?thesis
      using Cons.IH[OF ne, of "last (split_newline (buffer @ c))"]
      by (simp add: Let_def processLines_append)
  qed
qed

lemma handleOutput_lines:
  "handleOutput parse opath chunks
     = processLines parse opath (butlast (split_newline (concat chunks)))"
proof (cases chunks)
  case Nil
  then show ?thesis by (simp add: handleOutput_def)
next
  case (Cons c cs)
  then show ?thesis
    using handleOutput_loop_lines[of chunks parse opath "[]"]
    by (simp add: handleOutput_def)
qed

text \<open>
  Claim C7. A line of the helper's standard output that \<^verbatim>\<open>JSON.parse\<close> rejects gives rise to
  two debug-log entries (the line, the parse failure) when it is not blank and to nothing
  otherwise; it emits no event. The loop goes on: in a list of lines, the lines before and
  after it are processed as they are without it, and for a stream split into chunks in any
  way, whose complete lines are \<open>before\<close>, the malformed line and \<open>after\<close>, the events emitted
  are those of \<open>before\<close> followed by those of \<open>after\<close>. The consumer returns its list of actions
  for every stream: no exception leaves it.
\<close>

theorem malformed_line_ignored:
  "parse bad = None \<longrightarrow>
     processLine parse opath bad
       = (if trimIsNonEmpty bad
          then [DebugLog (LogStdout bad), DebugLog (LogParseFailed SyntaxError)] else [])
     \<and> emittedEvents (processLine parse opath bad) = []
     \<and> processLines parse opath (before @ bad # after)
         = processLines parse opath before @ processLine parse opath bad
           @ processLines parse opath after
     \<and> (butlast (split_newline (concat chunks)) = before @ bad # after \<longrightarrow>
          emittedEvents (handleOutput parse opath chunks)
            = emittedEvents (processLines parse opath before)
              @ emittedEvents (processLines parse opath after))"
proof
  assume p: "parse bad = None"
  have a: "processLine parse opath bad
       = (if trimIsNonEmpty bad
          then [DebugLog (LogStdout bad), DebugLog (LogParseFailed SyntaxError)] else [])"
    using p by (simp add: processLine_def)
  have b: "emittedEvents (processLine parse opath bad) = []"
    by (simp add: a)
  have c: "processLines parse opath (before @ bad # after)
         = processLines parse opath before @ processLine parse opath bad
           @ processLines parse opath after"
    by (simp add: processLines_append)
  have d: "butlast (split_newline (concat chunks)) = before @ bad # after \<longrightarrow>
          emittedEvents (handleOutput parse opath chunks)
            = emittedEvents (processLines parse opath before)
              @ emittedEvents (processLines parse opath after)"
    by (simp add: handleOutput_lines c emittedEvents_append b)
  from a b c d
  show "processLine parse opath bad
       = (if trimIsNonEmpty bad
          then [DebugLog (LogStdout bad), DebugLog (LogParseFailed SyntaxError)] else [])
     \<and> emittedEvents (processLine parse opath bad) = []
     \<and> processLines parse opath (before @ bad # after)
         = processLines parse opath before @ processLine parse opath bad
           @ processLines parse opath after
     \<and> (butlast (split_newline (concat chunks)) = before @ bad # after \<longrightarrow>
          emittedEvents (handleOutput parse opath chunks)
            = emittedEvents (processLines parse opath before)
              @ emittedEvents (processLines parse opath after))"
    by blast
qed

theorem malformed_line_ignored_witness:
  \<open>emittedEvents (handleOutput
       (\<lambda>s. if s = ''{"success":true,"message":"Recording started"}''
            then Some (JObj [(''success'', JBool True), (''message'', JStr ''Recording started'')])
            else if s = ''{"success":true,"message":"Recording stopped"}''
            then Some (JObj [(''success'', JBool True), (''message'', JStr ''Recording stopped'')])
            else None)
       (VStr ''out.m4a'')
       [''{"success":true,"message":"Recording started"}'' @ [CHR 0x0A] @ ''Segmentation'',
        '' fault'' @ [CHR 0x0A] @ ''{"success":true,"message":"Recording stopped"}'' @ [CHR 0x0A]])
     = [StartedEvent (VStr ''out.m4a''), StoppedEvent (VStr ''out.m4a'')]\<close>
proof -
  let ?P = \<open>\<lambda>s. if s = ''{"success":true,"message":"Recording started"}''
            then Some (JObj [(''success'', JBool True), (''message'', JStr ''Recording started'')])
            else if s = ''{"success":true,"message":"Recording stopped"}''
            then Some (JObj [(''success'', JBool True), (''message'', JStr ''Recording stopped'')])
            else None\<close>
  let ?chunks = \<open>[''{"success":true,"message":"Recording started"}'' @ [CHR 0x0A] @ ''Segmentation'',
        '' fault'' @ [CHR 0x0A] @ ''{"success":true,"message":"Recording stopped"}'' @ [CHR 0x0A]]\<close>
  have p: "?P ''Segmentation fault'' = None" by simp
  have l: \<open>butlast (split_newline (concat ?chunks))
             = [''{"success":true,"message":"Recording started"}''] @ ''Segmentation fault''
               # [''{"success":true,"message":"Recording stopped"}'']\<close>
    by code_simp
  have e1: \<open>emittedEvents (processLines ?P (VStr ''out.m4a'')
               [''{"success":true,"message":"Recording started"}''])
             = [StartedEvent (VStr ''out.m4a'')]\<close>
    by code_simp
  have e2: \<open>emittedEvents (processLines ?P (VStr ''out.m4a'')
               [''{"success":true,"message":"Recording stopped"}''])
             = [StoppedEvent (VStr ''out.m4a'')]\<close>
    by code_simp
  from malformed_line_ignored[of ?P "''Segmentation fault''" "VStr ''out.m4a''"
         \<open>[''{"success":true,"message":"Recording started"}'']\<close>
         \<open>[''{"success":true,"message":"Recording stopped"}'']\<close> ?chunks] p l
  have \<open>emittedEvents (handleOutput ?P (VStr ''out.m4a'') ?chunks)
            = emittedEvents (processLines ?P (VStr ''out.m4a'')
                [''{"success":true,"message":"Recording started"}''])
              @ emittedEvents (processLines ?P (VStr ''out.m4a'')
                [''{"success":true,"message":"Recording stopped"}''])\<close>
    by blast
  then show ?thesis by (simp only: e1 e2 append.simps)
qed


section \<open>Merging the two temporary files\<close>

lemma m4a_not_prefix:
  assumes "\<not> sublist ''.m4a'' (c # cs)"
  shows "\<not> prefix ''.m4a'' (c # (cs @ ''.m4a''))"
proof
  assume p: "prefix ''.m4a'' (c # (cs @ ''.m4a''))"
  have "c # (cs @ ''.m4a'') = (c # cs) @ ''.m4a''" by (simp only: append_Cons)
  with p have "prefix ''.m4a'' ((c # cs) @ ''.m4a'')" by metis
  then consider "prefix ''.m4a'' (c # cs)"
    | us where "''.m4a'' = (c # cs) @ us" "prefix us ''.m4a''"
    unfolding prefix_append by blast
  then show False
  proof cases
    case 1
    then have "sublist ''.m4a'' (c # cs)" by (rule prefix_imp_sublist)
    with assms show ?thesis by blast
  next
    case 2
    from 2(1) have "cs @ us = ''m4a''" by simp
    then have "us = [] \<or> us = ''a'' \<or> us = ''4a'' \<or> us = ''m4a''"
      by (auto simp: append_eq_Cons_conv)
    with 2(2) have "us = []" by auto
    with 2(1) have "''.m4a'' = c # cs" by simp
    then have "sublist ''.m4a'' (c # cs)" by (simp only: sublist_order.order_refl)
    with assms show ?thesis by blast
  qed
qed

lemma replacingOccurrences_extension:
  "\<not> sublist ''.m4a'' base \<Longrightarrow> replacingOccurrences (base @ ''.m4a'') ''.m4a'' [] = base"
proof (induction base)
  case Nil
  then show ?case by simp
next
  case (Cons c cs)
  from Cons.prems have "\<not> sublist ''.m4a'' cs" by (metis sublist_Cons_right)
  with Cons.IH have ih: "replacingOccurrences (cs @ ''.m4a'') ''.m4a'' [] = cs" by blast
  from m4a_not_prefix[OF Cons.prems]
  have np: "prefix ''.m4a'' (c # (cs @ ''.m4a'')) = False" by blast
  have "replacingOccurrences (c # (cs @ ''.m4a'')) ''.m4a'' []
          = c # replacingOccurrences (cs @ ''.m4a'') ''.m4a'' []"
    by (simp only: replacingOccurrences.simps np simp_thms if_False)
  with ih show ?case by (simp only: append_Cons)
qed

lemma session_both:
  "fold parseOption [''--both'']
     \<lparr> sessionOutputPath = out, recordMic = True, recordSystem = False,
       micPath = None, sysPath = None \<rparr>
   = \<lparr> sessionOutputPath = out, recordMic = True, recordSystem = True,
       micPath = None, sysPath = None \<rparr>"
  by simp

lemma recordCommand_both:
  assumes "\<not> sublist ''.m4a'' base"
  shows "recordCommand (base @ ''.m4a'') [''--both''] None path ffmpeg fs
    = (mergeAudioFiles path ffmpeg (base @ ''_temp_mic.m4a'') (base @ ''_temp_sys.m4a'')
         (base @ ''.m4a'') fs,
       [JSONOutput True (Some ''Recording started'') None (Some (base @ ''.m4a'')),
        JSONOutput True (Some ''Recording stopped'') None (Some (base @ ''.m4a''))], 0)"
  unfolding recordCommand_def session_both
  by (simp add: session_start_def session_stop_def Let_def
        replacingOccurrences_extension[OF assms] del: replacingOccurrences.simps)

lemma keepSeparate_moves:
  assumes "\<not> sublist ''.m4a'' base"
    and "fs (base @ ''_temp_mic.m4a'') \<noteq> None" and "fs (base @ ''_temp_sys.m4a'') \<noteq> None"
    and "fs (base @ ''_mic.m4a'') = None" and "fs (base @ ''_system.m4a'') = None"
  shows "keepSeparate (base @ ''_temp_mic.m4a'') (base @ ''_temp_sys.m4a'') (base @ ''.m4a'') fs
    = fs(base @ ''_temp_mic.m4a'' := None, base @ ''_mic.m4a'' := fs (base @ ''_temp_mic.m4a''),
         base @ ''_temp_sys.m4a'' := None, base @ ''_system.m4a'' := fs (base @ ''_temp_sys.m4a''))"
  using assms(2-5)
  by (simp add: keepSeparate_def Let_def replacingOccurrences_extension[OF assms(1)]
        moveItem_def try_discard_def del: replacingOccurrences.simps)

lemma remove_both:
  "try_discard (try_discard fs (removeItem fs a)) (removeItem (try_discard fs (removeItem fs a)) b)
     = fs(a := None, b := None)"
  by (auto simp: try_discard_def removeItem_def fun_upd_idem_iff)

text \<open>
  Claim C8, as stated, fails on the names and on the renaming. For the requested path
  \<^verbatim>\<open>rec.wav\<close> without the mixing tool, the temporary files end up as \<^verbatim>\<open>rec.wav_mic.m4a\<close> and
  \<^verbatim>\<open>rec.wav_system.m4a\<close>; nothing is at \<^verbatim>\<open>rec_mic.wav\<close> or \<^verbatim>\<open>rec_system.wav\<close>. For the requested
  path \<^verbatim>\<open>rec.m4a\<close> without the mixing tool, when a file \<^verbatim>\<open>rec_mic.m4a\<close> is already there, the
  temporary microphone file is not renamed: it stays where it was.
\<close>

theorem merge_fallback_counterexample:
  "fst (recordCommand ''rec.wav'' [''--both''] None None brokenTool
          [''rec.wav_temp_mic.m4a'' \<mapsto> ''mic audio'',
           ''rec.wav_temp_sys.m4a'' \<mapsto> ''system audio'']) ''rec_mic.wav'' = None
   \<and> fst (recordCommand ''rec.wav'' [''--both''] None None brokenTool
          [''rec.wav_temp_mic.m4a'' \<mapsto> ''mic audio'',
           ''rec.wav_temp_sys.m4a'' \<mapsto> ''system audio'']) ''rec_system.wav'' = None
   \<and> fst (recordCommand ''rec.wav'' [''--both''] None None brokenTool
          [''rec.wav_temp_mic.m4a'' \<mapsto> ''mic audio'',
           ''rec.wav_temp_sys.m4a'' \<mapsto> ''system audio'']) ''rec.wav_mic.m4a''
       = Some ''mic audio''
   \<and> fst (recordCommand ''rec.wav'' [''--both''] None None brokenTool
          [''rec.wav_temp_mic.m4a'' \<mapsto> ''mic audio'',
           ''rec.wav_temp_sys.m4a'' \<mapsto> ''system audio'']) ''rec.wav_system.m4a''
       = Some ''system audio''
   \<and> fst (recordCommand ''rec.m4a'' [''--both''] None None brokenTool
          [''rec_temp_mic.m4a'' \<mapsto> ''mic audio'', ''rec_temp_sys.m4a'' \<mapsto> ''system audio'',
           ''rec_mic.m4a'' \<mapsto> ''older recording'']) ''rec_temp_mic.m4a''
       = Some ''mic audio''
   \<and> fst (recordCommand ''rec.m4a'' [''--both''] None None brokenTool
          [''rec_temp_mic.m4a'' \<mapsto> ''mic audio'', ''rec_temp_sys.m4a'' \<mapsto> ''system audio'',
           ''rec_mic.m4a'' \<mapsto> ''older recording'']) ''rec_mic.m4a''
       = Some ''older recording''"
  by (simp add: recordCommand_def session_start_def session_stop_def mergeAudioFiles_def
        keepSeparate_def moveItem_def try_discard_def Let_def)

text \<open>
  Claim C8, amended. Let the requested output path be \<open>base\<close> followed by \<^verbatim>\<open>.m4a\<close>, with no
  other \<^verbatim>\<open>.m4a\<close> in it, recorded in both mode; the temporary files are then
  \<open>base\<close>\<^verbatim>\<open>_temp_mic.m4a\<close> and \<open>base\<close>\<^verbatim>\<open>_temp_sys.m4a\<close>. When the mixing tool exits with status
  0, both temporary files are gone afterwards and everything else, the requested path
  included, is as the tool left it. When the tool is absent, cannot be run or exits with
  another status, and both temporary files exist and the names \<open>base\<close>\<^verbatim>\<open>_mic.m4a\<close> and
  \<open>base\<close>\<^verbatim>\<open>_system.m4a\<close> are free, the temporary files are renamed to these names; nothing else
  changes, so the requested path is as the attempt left it and is not produced by the
  fallback. In every case the helper reports that recording stopped, with success, and exits
  with code 0.
\<close>

theorem merge_outcomes:
  assumes "\<not> sublist ''.m4a'' base"
  shows "(ffmpeg fp (mergeArguments (base @ ''_temp_mic.m4a'') (base @ ''_temp_sys.m4a'')
                      (base @ ''.m4a'')) fs = Exited 0 fs1 \<longrightarrow>
            fst (recordCommand (base @ ''.m4a'') [''--both''] None (Some fp) ffmpeg fs)
              = fs1(base @ ''_temp_mic.m4a'' := None, base @ ''_temp_sys.m4a'' := None))
     \<and> ((path = None \<and> fsA = fs
          \<or> path = Some fp
             \<and> ffmpeg fp (mergeArguments (base @ ''_temp_mic.m4a'') (base @ ''_temp_sys.m4a'')
                             (base @ ''.m4a'')) fs = RunThrows \<and> fsA = fs
          \<or> path = Some fp
             \<and> (\<exists>status. status \<noteq> 0
                  \<and> ffmpeg fp (mergeArguments (base @ ''_temp_mic.m4a'')
                                  (base @ ''_temp_sys.m4a'') (base @ ''.m4a'')) fs
                      = Exited status fsA))
         \<and> fsA (base @ ''_temp_mic.m4a'') \<noteq> None \<and> fsA (base @ ''_temp_sys.m4a'') \<noteq> None
         \<and> fsA (base @ ''_mic.m4a'') = None \<and> fsA (base @ ''_system.m4a'') = None \<longrightarrow>
            fst (recordCommand (base @ ''.m4a'') [''--both''] None path ffmpeg fs)
              = fsA(base @ ''_temp_mic.m4a'' := None,
                    base @ ''_mic.m4a'' := fsA (base @ ''_temp_mic.m4a''),
                    base @ ''_temp_sys.m4a'' := None,
                    base @ ''_system.m4a'' := fsA (base @ ''_temp_sys.m4a''))
            \<and> fst (recordCommand (base @ ''.m4a'') [''--both''] None path ffmpeg fs)
                  (base @ ''.m4a'') = fsA (base @ ''.m4a''))
     \<and> snd (recordCommand (base @ ''.m4a'') [''--both''] None path ffmpeg fs)
         = ([JSONOutput True (Some ''Recording started'') None (Some (base @ ''.m4a'')),
             JSONOutput True (Some ''Recording stopped'') None (Some (base @ ''.m4a''))], 0)"
proof (intro conjI impI)
  assume "ffmpeg fp (mergeArguments (base @ ''_temp_mic.m4a'') (base @ ''_temp_sys.m4a'')
                      (base @ ''.m4a'')) fs = Exited 0 fs1"
  then show "fst (recordCommand (base @ ''.m4a'') [''--both''] None (Some fp) ffmpeg fs)
              = fs1(base @ ''_temp_mic.m4a'' := None, base @ ''_temp_sys.m4a'' := None)"
    by (simp add: recordCommand_both[OF assms] mergeAudioFiles_def Let_def remove_both)
next
  show "snd (recordCommand (base @ ''.m4a'') [''--both''] None path ffmpeg fs)
         = ([JSONOutput True (Some ''Recording started'') None (Some (base @ ''.m4a'')),
             JSONOutput True (Some ''Recording stopped'') None (Some (base @ ''.m4a''))], 0)"
    by (simp add: recordCommand_both[OF assms])
next
  assume h: "(path = None \<and> fsA = fs
          \<or> path = Some fp
             \<and> ffmpeg fp (mergeArguments (base @ ''_temp_mic.m4a'') (base @ ''_temp_sys.m4a'')
                             (base @ ''.m4a'')) fs = RunThrows \<and> fsA = fs
          \<or> path = Some fp
             \<and> (\<exists>status. status \<noteq> 0
                  \<and> ffmpeg fp (mergeArguments (base @ ''_temp_mic.m4a'')
                                  (base @ ''_temp_sys.m4a'') (base @ ''.m4a'')) fs
                      = Exited status fsA))
         \<and> fsA (base @ ''_temp_mic.m4a'') \<noteq> None \<and> fsA (base @ ''_temp_sys.m4a'') \<noteq> None
         \<and> fsA (base @ ''_mic.m4a'') = None \<and> fsA (base @ ''_system.m4a'') = None"
  then have files: "fsA (base @ ''_temp_mic.m4a'') \<noteq> None" "fsA (base @ ''_temp_sys.m4a'') \<noteq> None"
    "fsA (base @ ''_mic.m4a'') = None" "fsA (base @ ''_system.m4a'') = None"
    by blast+
  from h have "mergeAudioFiles path ffmpeg (base @ ''_temp_mic.m4a'') (base @ ''_temp_sys.m4a'')
                 (base @ ''.m4a'') fs
               = keepSeparate (base @ ''_temp_mic.m4a'') (base @ ''_temp_sys.m4a'')
                   (base @ ''.m4a'') fsA"
    by (auto simp: mergeAudioFiles_def)
  then show r: "fst (recordCommand (base @ ''.m4a'') [''--both''] None path ffmpeg fs)
              = fsA(base @ ''_temp_mic.m4a'' := None,
                    base @ ''_mic.m4a'' := fsA (base @ ''_temp_mic.m4a''),
                    base @ ''_temp_sys.m4a'' := None,
                    base @ ''_system.m4a'' := fsA (base @ ''_temp_sys.m4a''))"
    by (simp add: recordCommand_both[OF assms] keepSeparate_moves[OF assms files])
  show "fst (recordCommand (base @ ''.m4a'') [''--both''] None path ffmpeg fs)
                  (base @ ''.m4a'') = fsA (base @ ''.m4a'')"
    by (simp add: r)
qed

theorem merge_outcomes_witness:
  "fst (recordCommand ''rec.m4a'' [''--both''] None None brokenTool
          [''rec_temp_mic.m4a'' \<mapsto> ''mic audio'', ''rec_temp_sys.m4a'' \<mapsto> ''system audio''])
     = [''rec_mic.m4a'' \<mapsto> ''mic audio'', ''rec_system.m4a'' \<mapsto> ''system audio'']
   \<and> fst (recordCommand ''rec.m4a'' [''--both''] None (Some ''/usr/bin/ffmpeg'')
          mixingTool
          [''rec_temp_mic.m4a'' \<mapsto> ''mic audio'', ''rec_temp_sys.m4a'' \<mapsto> ''system audio''])
     = [''rec.m4a'' \<mapsto> ''mixed audio'']"
proof -
  have b: "\<not> sublist ''.m4a'' ''rec''"
    using str_includes_sublist[of "''rec''" "''.m4a''"] by simp
  let ?fs = "[''rec_temp_mic.m4a'' \<mapsto> ''mic audio'', ''rec_temp_sys.m4a'' \<mapsto> ''system audio'']"
  note w1 = merge_outcomes[OF b, of brokenTool "''/usr/bin/ffmpeg''" ?fs ?fs
              None ?fs, simplified]
  note w2 = merge_outcomes[OF b,
              of mixingTool "''/usr/bin/ffmpeg''" ?fs "?fs(''rec.m4a'' \<mapsto> ''mixed audio'')"
                 None ?fs, simplified]
  from w1 w2 show ?thesis
    by (auto simp: fun_eq_iff mixingTool_def brokenTool_def mergeArguments_def)
qed


section \<open>Properties of the device classifier\<close>

lemma isSystemAudio_identify:
  "isSystemAudio (identifySystemAudioDevice pf d) =
     (case pf of
        Darwin \<Rightarrow> sublist ''blackhole'' (toLowerCase (name d))
                  \<or> sublist ''loopback'' (toLowerCase (name d))
                  \<or> sublist ''soundflower'' (toLowerCase (name d))
      | Win32 \<Rightarrow> sublist ''stereo mix'' (toLowerCase (name d))
                  \<or> sublist ''what u hear'' (toLowerCase (name d))
                  \<or> sublist ''loopback'' (toLowerCase (name d))
      | Linux \<Rightarrow> sublist ''.monitor'' (toLowerCase (name d)))"
  by (cases pf)
     (simp_all add: identifySystemAudioDevice_def Let_def str_includes_sublist)

lemma identify_BlackHole:
  "identifySystemAudioDevices Darwin [\<lparr>index = i, name = ''BlackHole 2ch'', type = t\<rparr>]
     = [\<lparr>index = i, name = ''BlackHole 2ch'', type = t, isSystemAudio = True,
         isBlackHole = Some True, isStereoMix = None, isMonitor = None\<rparr>]"
proof -
  have l: "toLowerCase ''BlackHole 2ch'' = ''blackhole 2ch''" by code_simp
  show ?thesis
    by (simp add: identifySystemAudioDevices_def identifySystemAudioDevice_def l)
qed

lemma identify_Monitor:
  "identifySystemAudioDevices Linux
       [\<lparr>index = i, name = ''Monitor of Built-in Audio.monitor'', type = t\<rparr>]
     = [\<lparr>index = i, name = ''Monitor of Built-in Audio.monitor'', type = t,
         isSystemAudio = True, isBlackHole = None, isStereoMix = None, isMonitor = Some True\<rparr>]"
proof -
  have l: "toLowerCase ''Monitor of Built-in Audio.monitor''
             = ''monitor of built-in audio.monitor''" by code_simp
  show ?thesis
    by (simp add: identifySystemAudioDevices_def identifySystemAudioDevice_def l)
qed

lemma identify_MacBook:
  "identifySystemAudioDevices pf
       [\<lparr>index = i, name = ''MacBook Pro Microphone'', type = t\<rparr>]
     = [\<lparr>index = i, name = ''MacBook Pro Microphone'', type = t,
         isSystemAudio = False, isBlackHole = None, isStereoMix = None, isMonitor = None\<rparr>]"
proof -
  have l: "toLowerCase ''MacBook Pro Microphone'' = ''macbook pro microphone''" by code_simp
  show ?thesis
    by (cases pf)
       (simp_all add: identifySystemAudioDevices_def identifySystemAudioDevice_def l)
qed

text \<open>
  Claim C9. For every device list and platform, the classifier marks a device as system
  audio exactly when its lower-cased name contains one of the platform's markers
  (blackhole, loopback, soundflower on macOS; stereo mix, what u hear, loopback on Windows;
  .monitor elsewhere). On the macOS path "BlackHole 2ch" gets isSystemAudio = true and
  isBlackHole = true; on the Linux path "Monitor of Built-in Audio.monitor" gets
  isSystemAudio = true and isMonitor = true; "MacBook Pro Microphone" gets
  isSystemAudio = false on every platform.
\<close>

theorem identifySystemAudioDevices_classifies:
  "map isSystemAudio (identifySystemAudioDevices pf devices) =
     map (\<lambda>d. case pf of
                 Darwin \<Rightarrow> sublist ''blackhole'' (toLowerCase (name d))
                           \<or> sublist ''loopback'' (toLowerCase (name d))
                           \<or> sublist ''soundflower'' (toLowerCase (name d))
               | Win32 \<Rightarrow> sublist ''stereo mix'' (toLowerCase (name d))
                           \<or> sublist ''what u hear'' (toLowerCase (name d))
                           \<or> sublist ''loopback'' (toLowerCase (name d))
               | Linux \<Rightarrow> sublist ''.monitor'' (toLowerCase (name d))) devices
   \<and> map (\<lambda>s. (isSystemAudio s, isBlackHole s))
         (identifySystemAudioDevices Darwin [\<lparr>index = 0, name = ''BlackHole 2ch'', type = Audio\<rparr>])
       = [(True, Some True)]
   \<and> map (\<lambda>s. (isSystemAudio s, isMonitor s))
         (identifySystemAudioDevices Linux
            [\<lparr>index = 0, name = ''Monitor of Built-in Audio.monitor'', type = Audio\<rparr>])
       = [(True, Some True)]
   \<and> map isSystemAudio
         (identifySystemAudioDevices pf
            [\<lparr>index = 0, name = ''MacBook Pro Microphone'', type = Audio\<rparr>])
       = [False]"
proof -
  have "map isSystemAudio (identifySystemAudioDevices pf devices) =
     map (\<lambda>d. case pf of
                 Darwin \<Rightarrow> sublist ''blackhole'' (toLowerCase (name d))
                           \<or> sublist ''loopback'' (toLowerCase (name d))
                           \<or> sublist ''soundflower'' (toLowerCase (name d))
               | Win32 \<Rightarrow> sublist ''stereo mix'' (toLowerCase (name d))
                           \<or> sublist ''what u hear'' (toLowerCase (name d))
                           \<or> sublist ''loopback'' (toLowerCase (name d))
               | Linux \<Rightarrow> sublist ''.monitor'' (toLowerCase (name d))) devices"
    by (simp add: identifySystemAudioDevices_def isSystemAudio_identify)
  then show ?thesis
    by (simp add: identify_BlackHole identify_Monitor identify_MacBook)
qed

section \<open>Configuration\<close>

lemma lookupObj_append_old: "a < length h \<Longrightarrow> lookupObj (h @ [ob]) a = lookupObj h a"
  by (simp add: lookupObj_def nth_append)

lemma lookupObj_append_new: "lookupObj (h @ [ob]) (length h) = ob"
  by (simp add: lookupObj_def)

lemma lookupObj_write_other:
  "a \<noteq> b \<Longrightarrow> lookupObj (writeField h a k v) b = lookupObj h b"
  by (simp add: lookupObj_def writeField_def)

text \<open>
  Claim C10, as stated, fails for the copy returned by \<^verbatim>\<open>getConfig\<close>: the copy is shallow.
  An FFmpeg recorder is configured with a microphone device object whose index is 0. The
  object returned by \<^verbatim>\<open>getConfig()\<close> is a new one, but its \<^verbatim>\<open>micDevice\<close> is the same device
  object; after \<^verbatim>\<open>copy.micDevice.index = 7\<close> the stored configuration's \<^verbatim>\<open>micDevice.index\<close>
  is 7.
\<close>

theorem getConfig_copy_shares_devices:
  "fst (getConfig (newAudioRecorder Darwin [[''index'' \<mapsto> VNum 0, ''name'' \<mapsto> VStr ''Mic'']]
          [''micDevice'' \<mapsto> VRef 0, ''outputPath'' \<mapsto> VStr ''out.m4a''])) = 2
   \<and> config (snd (getConfig (newAudioRecorder Darwin
          [[''index'' \<mapsto> VNum 0, ''name'' \<mapsto> VStr ''Mic'']]
          [''micDevice'' \<mapsto> VRef 0, ''outputPath'' \<mapsto> VStr ''out.m4a'']))) = 1
   \<and> readNested (heap (snd (getConfig (newAudioRecorder Darwin
          [[''index'' \<mapsto> VNum 0, ''name'' \<mapsto> VStr ''Mic'']]
          [''micDevice'' \<mapsto> VRef 0, ''outputPath'' \<mapsto> VStr ''out.m4a''])))) 1
        ''micDevice'' ''index'' = Some (VNum 0)
   \<and> writeNested (heap (snd (getConfig (newAudioRecorder Darwin
          [[''index'' \<mapsto> VNum 0, ''name'' \<mapsto> VStr ''Mic'']]
          [''micDevice'' \<mapsto> VRef 0, ''outputPath'' \<mapsto> VStr ''out.m4a''])))) 2
        ''micDevice'' ''index'' (VNum 7)
       = Some (writeField (heap (snd (getConfig (newAudioRecorder Darwin
            [[''index'' \<mapsto> VNum 0, ''name'' \<mapsto> VStr ''Mic'']]
            [''micDevice'' \<mapsto> VRef 0, ''outputPath'' \<mapsto> VStr ''out.m4a''])))) 0
           ''index'' (VNum 7))
   \<and> readNested (writeField (heap (snd (getConfig (newAudioRecorder Darwin
          [[''index'' \<mapsto> VNum 0, ''name'' \<mapsto> VStr ''Mic'']]
          [''micDevice'' \<mapsto> VRef 0, ''outputPath'' \<mapsto> VStr ''out.m4a''])))) 0
          ''index'' (VNum 7)) 1 ''micDevice'' ''index''
       = Some (VNum 7)"
  by (simp add: getConfig_def newAudioRecorder_def readNested_def writeNested_def
        getField_def lookupObj_def writeField_def spread_def defaultRecorderConfig_def)

text \<open>
  Claim C10, amended. In a state other than Idle \<^verbatim>\<open>setConfig\<close> throws and changes nothing. In
  the Idle state it succeeds, the stored configuration afterwards has, for every property
  name, the value given in the argument when the argument has that property and the
  previous value otherwise, and every other field of the recorder and every object already
  in the store stay as they were. \<^verbatim>\<open>getConfig\<close> returns a shallow copy: a reference to a new
  object with the property values of the stored configuration, references to device
  objects included. An assignment to any property of that object, or any other change of
  the store confined to that object, leaves the stored configuration as it was; the
  objects the configuration refers to are shared with the copy. This holds for both
  recorder classes; the stored configuration is assumed to be an object of the store.
\<close>

theorem config_frame:
  "(state r \<noteq> Idle \<longrightarrow>
      setConfig cfg r = (r, Some (Error ''Cannot update config while recording'')))
   \<and> (state r = Idle \<longrightarrow>
        snd (setConfig cfg r) = None
        \<and> (\<forall>k. lookupObj (heap (fst (setConfig cfg r))) (config (fst (setConfig cfg r))) k
                = (case cfg k of Some v \<Rightarrow> Some v | None \<Rightarrow> lookupObj (heap r) (config r) k))
        \<and> fst (setConfig cfg r)
            = r\<lparr> config := config (fst (setConfig cfg r)), heap := heap (fst (setConfig cfg r)) \<rparr>
        \<and> (\<forall>a < length (heap r). lookupObj (heap (fst (setConfig cfg r))) a = lookupObj (heap r) a))
   \<and> (config r < length (heap r) \<longrightarrow>
        fst (getConfig r) \<noteq> config r
        \<and> snd (getConfig r) = r\<lparr> heap := heap (snd (getConfig r)) \<rparr>
        \<and> lookupObj (heap (snd (getConfig r))) (fst (getConfig r)) = lookupObj (heap r) (config r)
        \<and> lookupObj (heap (snd (getConfig r))) (config r) = lookupObj (heap r) (config r)
        \<and> (\<forall>k v. lookupObj (writeField (heap (snd (getConfig r))) (fst (getConfig r)) k v)
                      (config r)
                  = lookupObj (heap r) (config r))
        \<and> (\<forall>h'. (\<forall>b. b \<noteq> fst (getConfig r) \<longrightarrow>
                         lookupObj h' b = lookupObj (heap (snd (getConfig r))) b) \<longrightarrow>
                  lookupObj h' (config r) = lookupObj (heap r) (config r)))
   \<and> (nstate n \<noteq> NIdle \<longrightarrow>
        native_setConfig cfg n = (n, Some (Error ''Cannot update config while recording'')))
   \<and> (nstate n = NIdle \<longrightarrow>
        snd (native_setConfig cfg n) = None
        \<and> (\<forall>k. lookupObj (nheap (fst (native_setConfig cfg n)))
                   (nconfig (fst (native_setConfig cfg n))) k
                = (case cfg k of Some v \<Rightarrow> Some v | None \<Rightarrow> lookupObj (nheap n) (nconfig n) k))
        \<and> fst (native_setConfig cfg n)
            = n\<lparr> nconfig := nconfig (fst (native_setConfig cfg n)),
                 nheap := nheap (fst (native_setConfig cfg n)) \<rparr>
        \<and> (\<forall>a < length (nheap n).
              lookupObj (nheap (fst (native_setConfig cfg n))) a = lookupObj (nheap n) a))
   \<and> (nconfig n < length (nheap n) \<longrightarrow>
        fst (native_getConfig n) \<noteq> nconfig n
        \<and> snd (native_getConfig n) = n\<lparr> nheap := nheap (snd (native_getConfig n)) \<rparr>
        \<and> lookupObj (nheap (snd (native_getConfig n))) (fst (native_getConfig n))
            = lookupObj (nheap n) (nconfig n)
        \<and> lookupObj (nheap (snd (native_getConfig n))) (nconfig n)
            = lookupObj (nheap n) (nconfig n)
        \<and> (\<forall>k v. lookupObj (writeField (nheap (snd (native_getConfig n)))
                               (fst (native_getConfig n)) k v) (nconfig n)
                  = lookupObj (nheap n) (nconfig n))
        \<and> (\<forall>h'. (\<forall>b. b \<noteq> fst (native_getConfig n) \<longrightarrow>
                         lookupObj h' b = lookupObj (nheap (snd (native_getConfig n))) b) \<longrightarrow>
                  lookupObj h' (nconfig n) = lookupObj (nheap n) (nconfig n)))"
proof (intro conjI)
  show "state r \<noteq> Idle \<longrightarrow>
      setConfig cfg r = (r, Some (Error ''Cannot update config while recording''))"
    by (simp add: setConfig_def)
  show "nstate n \<noteq> NIdle \<longrightarrow>
        native_setConfig cfg n = (n, Some (Error ''Cannot update config while recording''))"
    by (simp add: native_setConfig_def)
  show "state r = Idle \<longrightarrow>
        snd (setConfig cfg r) = None
        \<and> (\<forall>k. lookupObj (heap (fst (setConfig cfg r))) (config (fst (setConfig cfg r))) k
                = (case cfg k of Some v \<Rightarrow> Some v | None \<Rightarrow> lookupObj (heap r) (config r) k))
        \<and> fst (setConfig cfg r)
            = r\<lparr> config := config (fst (setConfig cfg r)), heap := heap (fst (setConfig cfg r)) \<rparr>
        \<and> (\<forall>a < length (heap r). lookupObj (heap (fst (setConfig cfg r))) a = lookupObj (heap r) a)"
    by (auto simp: setConfig_def lookupObj_append_old lookupObj_append_new spread_def
          map_add_def split: option.splits)
  show "nstate n = NIdle \<longrightarrow>
        snd (native_setConfig cfg n) = None
        \<and> (\<forall>k. lookupObj (nheap (fst (native_setConfig cfg n)))
                   (nconfig (fst (native_setConfig cfg n))) k
                = (case cfg k of Some v \<Rightarrow> Some v | None \<Rightarrow> lookupObj (nheap n) (nconfig n) k))
        \<and> fst (native_setConfig cfg n)
            = n\<lparr> nconfig := nconfig (fst (native_setConfig cfg n)),
                 nheap := nheap (fst (native_setConfig cfg n)) \<rparr>
        \<and> (\<forall>a < length (nheap n).
              lookupObj (nheap (fst (native_setConfig cfg n))) a = lookupObj (nheap n) a)"
    by (auto simp: native_setConfig_def lookupObj_append_old lookupObj_append_new spread_def
          map_add_def split: option.splits)
  show "config r < length (heap r) \<longrightarrow>
        fst (getConfig r) \<noteq> config r
        \<and> snd (getConfig r) = r\<lparr> heap := heap (snd (getConfig r)) \<rparr>
        \<and> lookupObj (heap (snd (getConfig r))) (fst (getConfig r)) = lookupObj (heap r) (config r)
        \<and> lookupObj (heap (snd (getConfig r))) (config r) = lookupObj (heap r) (config r)
        \<and> (\<forall>k v. lookupObj (writeField (heap (snd (getConfig r))) (fst (getConfig r)) k v)
                      (config r)
                  = lookupObj (heap r) (config r))
        \<and> (\<forall>h'. (\<forall>b. b \<noteq> fst (getConfig r) \<longrightarrow>
                         lookupObj h' b = lookupObj (heap (snd (getConfig r))) b) \<longrightarrow>
                  lookupObj h' (config r) = lookupObj (heap r) (config r))"
    by (auto simp: getConfig_def lookupObj_append_old lookupObj_append_new spread_def
          lookupObj_write_other)
  show "nconfig n < length (nheap n) \<longrightarrow>
        fst (native_getConfig n) \<noteq> nconfig n
        \<and> snd (native_getConfig n) = n\<lparr> nheap := nheap (snd (native_getConfig n)) \<rparr>
        \<and> lookupObj (nheap (snd (native_getConfig n))) (fst (native_getConfig n))
            = lookupObj (nheap n) (nconfig n)
        \<and> lookupObj (nheap (snd (native_getConfig n))) (nconfig n)
            = lookupObj (nheap n) (nconfig n)
        \<and> (\<forall>k v. lookupObj (writeField (nheap (snd (native_getConfig n)))
                               (fst (native_getConfig n)) k v) (nconfig n)
                  = lookupObj (nheap n) (nconfig n))
        \<and> (\<forall>h'. (\<forall>b. b \<noteq> fst (native_getConfig n) \<longrightarrow>
                         lookupObj h' b = lookupObj (nheap (snd (native_getConfig n))) b) \<longrightarrow>
                  lookupObj h' (nconfig n) = lookupObj (nheap n) (nconfig n))"
    by (auto simp: native_getConfig_def lookupObj_append_old lookupObj_append_new spread_def
          lookupObj_write_other)
qed

theorem config_frame_witness:
  "getField (nheap (fst (native_setConfig [''recordSystem'' \<mapsto> VBool True]
       (newNativeAudioRecorder [] [''outputPath'' \<mapsto> VStr ''a.m4a''])))) 1 ''recordSystem''
     = VBool True
   \<and> getField (nheap (fst (native_setConfig [''recordSystem'' \<mapsto> VBool True]
       (newNativeAudioRecorder [] [''outputPath'' \<mapsto> VStr ''a.m4a''])))) 1 ''outputPath''
     = VStr ''a.m4a''
   \<and> fst (native_getConfig (newNativeAudioRecorder [] [''outputPath'' \<mapsto> VStr ''a.m4a''])) = 1
   \<and> getField (writeField
         (nheap (snd (native_getConfig
            (newNativeAudioRecorder [] [''outputPath'' \<mapsto> VStr ''a.m4a'']))))
         1 ''outputPath'' (VStr ''b.m4a'')) 0 ''outputPath''
     = VStr ''a.m4a''
   \<and> snd (setConfig [''bitrate'' \<mapsto> VStr ''64k'']
      \<lparr> state = Recording, process = Some 41, config = 0, platform = Darwin, startTime = 0,
        pausedDuration = 0, pauseStartTime = 0, heap = [Map.empty], trace = [] \<rparr>)
     = Some (Error ''Cannot update config while recording'')"
  using config_frame
    [of "\<lparr> state = Recording, process = Some 41, config = 0, platform = Darwin, startTime = 0,
          pausedDuration = 0, pauseStartTime = 0, heap = [Map.empty], trace = [] \<rparr>"
        "[''bitrate'' \<mapsto> VStr ''64k'']"
        "newNativeAudioRecorder [] [''outputPath'' \<mapsto> VStr ''a.m4a'']"]
  by (simp add: native_setConfig_def native_getConfig_def newNativeAudioRecorder_def
        getField_def lookupObj_def writeField_def spread_def defaultNativeConfig_def)


end
